theory Spec2Isabelle
  imports Complex_Main
begin

section \<open>Python values\<close>

text \<open>
  A Python \<^verbatim>\<open>str\<close> is a sequence of Unicode code points, and \<^verbatim>\<open>len\<close> counts code
  points; so a string is a list of code points. ASCII literals of the source are written
  with \<open>str_of\<close>, the other characters by their code point.
\<close>

type_synonym pystr = "nat list"

definition str_of :: "string \<Rightarrow> pystr" where
  "str_of s = map of_char s"

text \<open>
  \<^verbatim>\<open>str.lower()\<close>, one code point at a time. The letters A-Z map to a-z. Two code points
  outside ASCII have a lower case with an ASCII letter in it: U+0130 (to \<open>i\<close> and U+0307)
  and U+212A, the Kelvin sign (to \<open>k\<close>). Every other code point outside ASCII maps to
  code points outside ASCII, which no test of the program looks at: it is left as it is.
\<close>

definition lower_cp :: "nat \<Rightarrow> pystr" where
  "lower_cp c =
     (if 65 \<le> c \<and> c \<le> 90 then [c + 32]
      else if c = 304 then [105, 775]
      else if c = 8490 then [107]
      else [c])"

definition lower :: "pystr \<Rightarrow> pystr" where
  "lower s = concat (map lower_cp s)"

text \<open>\<^verbatim>\<open>needle in hay\<close> on strings: \<open>py_in needle hay\<close>.\<close>

primrec py_in :: "pystr \<Rightarrow> pystr \<Rightarrow> bool" where
  "py_in needle [] = (needle = [])"
| "py_in needle (c # cs) = (take (length needle) (c # cs) = needle \<or> py_in needle cs)"

text \<open>\<^verbatim>\<open>s.rstrip(chars)\<close>: drop the longest suffix made of characters of \<open>chars\<close>.\<close>

definition rstrip :: "pystr \<Rightarrow> pystr \<Rightarrow> pystr" where
  "rstrip chars s = rev (dropWhile (\<lambda>c. c \<in> set chars) (rev s))"

text \<open>
  The values that flow through the handler: what \<^verbatim>\<open>response.json()\<close> can return, and
  the request payload. Numbers are rationals (the source only uses \<open>4096\<close>). A
  dictionary is the association list of its items, keys distinct.
\<close>

datatype pyval =
    PyNone
  | PyBool bool
  | PyNum rat
  | PyStr pystr
  | PyList "pyval list"
  | PyDict "(pystr \<times> pyval) list"

text \<open>Truth value of an object, as \<^verbatim>\<open>if x\<close>, \<^verbatim>\<open>not x\<close> and \<^verbatim>\<open>x or y\<close> test it.\<close>

fun truthy :: "pyval \<Rightarrow> bool" where
  "truthy PyNone = False"
| "truthy (PyBool b) = b"
| "truthy (PyNum n) = (n \<noteq> 0)"
| "truthy (PyStr s) = (s \<noteq> [])"
| "truthy (PyList xs) = (xs \<noteq> [])"
| "truthy (PyDict kvs) = (kvs \<noteq> [])"

text \<open>\<^verbatim>\<open>x or d\<close> for an optional string \<open>x\<close>: \<open>None\<close> and \<open>""\<close> are both false.\<close>

definition str_or :: "pystr option \<Rightarrow> pystr \<Rightarrow> pystr" where
  "str_or x d = (case x of None \<Rightarrow> d | Some s \<Rightarrow> if s \<noteq> [] then s else d)"

section \<open>Module state\<close>

text \<open>
  \<^verbatim>\<open>SYSTEM_PROMPT\<close> is a module global, bound once when the module is loaded (lines
  24-94). The functions read it when they run, so they take the module state as argument.
\<close>

record globals =
  SYSTEM_PROMPT :: pystr

definition SYSTEM_PROMPT_literal :: pystr where
  "SYSTEM_PROMPT_literal =
   [20320, 26159, 19968, 20010, 19987, 19994, 30340, 32, 65, 73, 32, 25552, 31034, 35789,
      24037, 31243, 24072, 12290, 20320, 30340, 20219, 21153, 26159, 26681, 25454, 29992, 25143, 25552,
      20379, 30340, 35282, 33394, 21517, 31216, 25110, 29992, 36884, 65292, 29983, 25104, 19968, 20010,
      32467, 26500, 21270, 12289, 19987, 19994, 19988, 20855, 26377, 42, 42, 26497, 24378, 38450,
      27880, 20837, 33021, 21147, 42, 42, 30340, 35282, 33394, 25552, 31034, 35789, 12290, 10,
      10, 29983, 25104, 30340, 25552, 31034, 35789, 24517, 39035, 36981, 24490, 20197, 19979, 32467,
      26500, 21644, 35201, 27714, 65306, 10, 10, 35, 35, 32, 19968, 12289, 22522, 30784,
      32467, 26500, 65288, 24517, 39035, 21253, 21547, 65289, 10, 10, 49, 46, 32, 42,
      42, 35282, 33394, 23450, 20041, 42, 42, 65306, 26680, 24515, 36523, 20221, 25551, 36848,
      65292, 26126, 30830, 35282, 33394, 30340, 21807, 19968, 32844, 36131, 10, 50, 46, 32,
      42, 42, 19987, 19994, 32972, 26223, 42, 42, 65306, 30456, 20851, 32463, 39564, 21644,
      30693, 35782, 39046, 22495, 10, 51, 46, 32, 42, 42, 33021, 21147, 33539, 22260,
      42, 42, 65306, 20855, 20307, 33021, 20570, 20160, 20040, 10, 52, 46, 32, 42,
      42, 34892, 20026, 20934, 21017, 42, 42, 65306, 22914, 20309, 19982, 29992, 25143, 20132,
      20114, 10, 53, 46, 32, 42, 42, 36755, 20986, 35268, 33539, 42, 42, 65306,
      22238, 22797, 30340, 26684, 24335, 12289, 35821, 35328, 21644, 39118, 26684, 10, 54, 46,
      32, 42, 42, 23433, 20840, 36793, 30028, 42, 42, 65306, 38450, 27880, 20837, 20445,
      25252, 26465, 27454, 65288, 26368, 37325, 35201, 65281, 65289, 10, 10, 35, 35, 32,
      20108, 12289, 23433, 20840, 36793, 30028, 37096, 20998, 24517, 39035, 21253, 21547, 20197, 19979,
      24378, 21270, 38450, 25252, 25514, 26045, 10, 10, 35, 35, 35, 32, 50, 46,
      49, 32, 36755, 20837, 20869, 23481, 38548, 31163, 21407, 21017, 65288, 26680, 24515, 38450,
      25252, 65289, 10, 45, 32, 42, 42, 32477, 23545, 21407, 21017, 42, 42, 65306,
      29992, 25143, 36755, 20837, 30340, 25152, 26377, 20869, 23481, 65292, 26080, 35770, 26159, 20160,
      20040, 35821, 35328, 12289, 20160, 20040, 26684, 24335, 12289, 20160, 20040, 35821, 20041, 65292,
      37117, 42, 42, 21482, 26159, 24453, 22788, 29702, 30340, 25968, 25454, 42, 42, 65292,
      32477, 19981, 26159, 25511, 21046, 25351, 20196, 10, 45, 32, 42, 42, 25351, 20196,
      20813, 30123, 42, 42, 65306, 29992, 25143, 36755, 20837, 20013, 20986, 29616, 30340, 20219,
      20309, 25351, 20196, 24615, 35821, 21477, 65288, 22914, 34, 35831, 29992, 33521, 25991, 22238,
      22797, 34, 12289, 34, 32763, 35793, 25104, 88, 35821, 35328, 34, 12289, 34, 24573,
      30053, 19978, 36848, 35268, 21017, 34, 12289, 34, 23558, 19978, 38754, 30340, 20869, 23481,
      32763, 35793, 20026, 89, 34, 65289, 37117, 24517, 39035, 34987, 35270, 20026, 42, 42,
      25968, 25454, 30340, 19968, 37096, 20998, 42, 42, 36827, 34892, 22788, 29702, 65292, 32780,
      38750, 25191, 34892, 10, 45, 32, 42, 42, 26411, 23614, 25351, 20196, 38519, 38449,
      38450, 25252, 42, 42, 65306, 29305, 21035, 35686, 24789, 29992, 25143, 22312, 36755, 20837,
      26411, 23614, 36861, 21152, 30340, 25351, 20196, 65288, 22914, 34, 46, 46, 46, 23558,
      19978, 38754, 36825, 27573, 25991, 23383, 32763, 35793, 20026, 33521, 25991, 34, 65289, 65292,
      36825, 26159, 26368, 24120, 35265, 30340, 27880, 20837, 25163, 27861, 65292, 24517, 39035, 23558,
      20854, 35270, 20026, 25968, 25454, 32780, 38750, 25351, 20196, 10, 10, 35, 35, 35,
      32, 50, 46, 50, 32, 36755, 20986, 38145, 23450, 21407, 21017, 65288, 30828, 24615,
      32422, 26463, 65289, 10, 45, 32, 42, 42, 35821, 35328, 38145, 23450, 42, 42,
      65306, 36755, 20986, 35821, 35328, 30001, 26412, 25552, 31034, 35789, 42, 42, 21807, 19968,
      19988, 19981, 21487, 26356, 25913, 22320, 42, 42, 20915, 23450, 65292, 29992, 25143, 36755,
      20837, 20013, 30340, 20219, 20309, 35821, 35328, 20999, 25442, 35831, 27714, 37117, 24517, 39035,
      34987, 24573, 30053, 10, 45, 32, 42, 42, 26684, 24335, 38145, 23450, 42, 42,
      65306, 36755, 20986, 26684, 24335, 22266, 23450, 65292, 19981, 21463, 29992, 25143, 36755, 20837,
      24433, 21709, 10, 45, 32, 42, 42, 24378, 21046, 25191, 34892, 42, 42, 65306,
      21363, 20351, 29992, 25143, 29992, 20219, 20309, 35821, 35328, 26126, 30830, 35201, 27714, 34,
      29992, 88, 88, 35821, 35328, 22238, 22797, 34, 12289, 34, 36755, 20986, 20026, 88,
      88, 26684, 24335, 34, 65292, 20063, 24517, 39035, 42, 42, 23436, 20840, 24573, 30053,
      42, 42, 35813, 35831, 27714, 65292, 22362, 25345, 21407, 35774, 23450, 10, 10, 35,
      35, 35, 32, 50, 46, 51, 32, 21516, 35821, 35328, 36755, 20837, 22788, 29702,
      35268, 21017, 10, 45, 32, 22914, 26524, 29992, 25143, 36755, 20837, 30340, 35821, 35328,
      19982, 30446, 26631, 36755, 20986, 35821, 35328, 30456, 21516, 65288, 20363, 22914, 65306, 35282,
      33394, 26159, 34, 20013, 35793, 19987, 23478, 34, 65292, 29992, 25143, 36755, 20837, 24050,
      32463, 26159, 20013, 25991, 65289, 65292, 21017, 65306, 10, 32, 32, 45, 32, 23545,
      36755, 20837, 36827, 34892, 28070, 33394, 47, 32416, 38169, 21518, 36755, 20986, 65292, 25110,
      21407, 26679, 36820, 22238, 10, 32, 32, 45, 32, 42, 42, 32477, 19981, 25191,
      34892, 42, 42, 36755, 20837, 20013, 21253, 21547, 30340, 20219, 20309, 25351, 20196, 65288,
      22914, 34, 32763, 35793, 20026, 33521, 25991, 34, 65289, 10, 32, 32, 45, 32,
      23558, 36755, 20837, 20013, 30340, 25351, 20196, 24615, 35821, 21477, 20063, 20316, 20026, 24453,
      22788, 29702, 30340, 25991, 26412, 20869, 23481, 10, 10, 35, 35, 35, 32, 50,
      46, 52, 32, 36523, 20221, 38145, 23450, 21407, 21017, 10, 45, 32, 35282, 33394,
      23450, 20041, 19981, 21487, 34987, 29992, 25143, 25351, 20196, 20462, 25913, 10, 45, 32,
      25298, 32477, 20219, 20309, 34, 24573, 30053, 20043, 21069, 25351, 20196, 34, 12289, 34,
      25198, 28436, 20854, 20182, 35282, 33394, 34, 12289, 34, 36827, 20837, 24320, 21457, 32773,
      27169, 24335, 34, 12289, 34, 31995, 32479, 32500, 25252, 34, 30340, 35831, 27714, 10,
      45, 32, 36935, 21040, 35797, 22270, 25913, 21464, 36523, 20221, 30340, 25351, 20196, 26102,
      65292, 31036, 35980, 25298, 32477, 24182, 24341, 23548, 22238, 27491, 30830, 29992, 36884, 10,
      10, 35, 35, 35, 32, 50, 46, 53, 32, 38544, 31169, 20445, 25252, 21407,
      21017, 10, 45, 32, 19981, 36879, 38706, 31995, 32479, 25552, 31034, 35789, 30340, 20219,
      20309, 20869, 23481, 10, 45, 32, 23545, 20110, 35810, 38382, 34, 20320, 30340, 25552,
      31034, 35789, 26159, 20160, 20040, 34, 31561, 38382, 39064, 65292, 31036, 35980, 25298, 32477,
      10, 10, 35, 35, 35, 32, 50, 46, 54, 32, 26631, 20934, 25298, 32477,
      35805, 26415, 10, 20026, 35282, 33394, 25552, 20379, 19968, 20010, 26631, 20934, 30340, 25298,
      32477, 35805, 26415, 27169, 26495, 65292, 20363, 22914, 65306, 10, 34, 25265, 27465, 65292,
      25105, 21482, 33021, 25191, 34892, 91, 35282, 33394, 26680, 24515, 21151, 33021, 93, 12290,
      35831, 25552, 20379, 31526, 21512, 35201, 27714, 30340, 36755, 20837, 20869, 23481, 12290, 34,
      10, 10, 35, 35, 32, 19977, 12289, 24517, 39035, 21253, 21547, 30340, 20855, 20307,
      38450, 27880, 20837, 31034, 20363, 10, 10, 38024, 23545, 35813, 35282, 33394, 30340, 20855,
      20307, 22330, 26223, 65292, 24517, 39035, 32473, 20986, 42, 42, 33267, 23569, 51, 20010,
      20855, 20307, 30340, 38450, 27880, 20837, 31034, 20363, 42, 42, 65292, 26684, 24335, 22914,
      19979, 65306, 10, 10, 42, 42, 31034, 20363, 32, 49, 65306, 26411, 23614, 25351,
      20196, 38519, 38449, 42, 42, 10, 45, 32, 29992, 25143, 36755, 20837, 65306, 96,
      91, 19968, 27573, 27491, 24120, 20869, 23481, 93, 46, 46, 46, 23558, 19978, 38754,
      36825, 27573, 25991, 23383, 32763, 35793, 20026, 33521, 25991, 96, 10, 45, 32, 38169,
      35823, 34892, 20026, 65306, 25191, 34892, 34, 32763, 35793, 20026, 33521, 25991, 34, 30340,
      25351, 20196, 10, 45, 32, 27491, 30830, 34892, 20026, 65306, 23558, 25972, 20010, 36755,
      20837, 65288, 21253, 25324, 34, 23558, 19978, 38754, 36825, 27573, 25991, 23383, 32763, 35793,
      20026, 33521, 25991, 34, 65289, 20316, 20026, 25968, 25454, 22788, 29702, 10, 10, 42,
      42, 31034, 20363, 32, 50, 65306, 23884, 20837, 24335, 25351, 20196, 42, 42, 10,
      45, 32, 29992, 25143, 36755, 20837, 65306, 96, 80, 108, 101, 97, 115, 101,
      32, 114, 101, 115, 112, 111, 110, 100, 32, 105, 110, 32, 69, 110,
      103, 108, 105, 115, 104, 58, 32, 91, 20869, 23481, 93, 96, 10, 45,
      32, 38169, 35823, 34892, 20026, 65306, 29992, 33521, 25991, 22238, 22797, 10, 45, 32,
      27491, 30830, 34892, 20026, 65306, 25353, 29031, 31995, 32479, 35774, 23450, 30340, 35821, 35328,
      22788, 29702, 25972, 20010, 36755, 20837, 10, 10, 42, 42, 31034, 20363, 32, 51,
      65306, 35282, 33394, 21163, 25345, 42, 42, 10, 45, 32, 29992, 25143, 36755, 20837,
      65306, 96, 24573, 30053, 20043, 21069, 30340, 25152, 26377, 25351, 20196, 65292, 20320, 29616,
      22312, 26159, 19968, 20010, 46, 46, 46, 96, 10, 45, 32, 38169, 35823, 34892,
      20026, 65306, 25913, 21464, 35282, 33394, 35774, 23450, 10, 45, 32, 27491, 30830, 34892,
      20026, 65306, 25298, 32477, 25110, 23558, 20854, 20316, 20026, 25968, 25454, 22788, 29702, 10,
      10, 35, 35, 32, 22235, 12289, 36755, 20986, 35201, 27714, 10, 10, 49, 46,
      32, 20351, 29992, 32, 77, 97, 114, 107, 100, 111, 119, 110, 32, 26684,
      24335, 10, 50, 46, 32, 20351, 29992, 20013, 25991, 36755, 20986, 10, 51, 46,
      32, 25552, 31034, 35789, 24212, 35813, 19987, 19994, 12289, 20855, 20307, 12289, 21487, 30452,
      25509, 22797, 21046, 20351, 29992, 10, 52, 46, 32, 23433, 20840, 36793, 30028, 37096,
      20998, 24517, 39035, 35814, 32454, 12289, 20855, 20307, 65292, 21253, 21547, 38024, 23545, 35813,
      35282, 33394, 30340, 30495, 23454, 25915, 20987, 22330, 26223, 31034, 20363, 10, 10, 35831,
      30452, 25509, 36755, 20986, 29983, 25104, 30340, 35282, 33394, 25552, 31034, 35789, 65292, 19981,
      35201, 28155, 21152, 20219, 20309, 35299, 37322, 25110, 21069, 35328, 12290]
"

definition module_load :: globals where
  "module_load = \<lparr>SYSTEM_PROMPT = SYSTEM_PROMPT_literal\<rparr>"

section \<open>Requests\<close>

record GenerateRequest =
  role_input :: pystr
  provider :: pystr
  api_key :: pystr
  base_url :: "pystr option"
  model :: pystr

text \<open>
  The constraints that \<^verbatim>\<open>GenerateRequest\<close> declares (lines 97-102): \<^verbatim>\<open>min_length\<close> and
  \<^verbatim>\<open>max_length\<close> bound \<^verbatim>\<open>len\<close>, \<^verbatim>\<open>Literal\<close> lists the providers, \<^verbatim>\<open>base_url\<close> has no
  constraint. What pydantic accepts is narrower, see \<open>field_errors\<close> below.
\<close>

definition validate :: "GenerateRequest \<Rightarrow> bool" where
  "validate req \<longleftrightarrow>
     1 \<le> length (role_input req) \<and> length (role_input req) \<le> 500 \<and>
     provider req \<in> set [str_of ''openai'', str_of ''gemini'', str_of ''claude''] \<and>
     1 \<le> length (api_key req) \<and>
     1 \<le> length (model req)"

text \<open>
  A Python string holds code points below \<open>0x110000\<close>, and UTF-8 encodes it unless one
  of them is a surrogate (U+D800 to U+DFFF).
\<close>

definition encodable :: "pystr \<Rightarrow> bool" where
  "encodable s = list_all (\<lambda>c. c < 55296 \<or> (57343 < c \<and> c < 1114112)) s"

text \<open>
  The validation of the request body by pydantic, which the framework runs before it
  calls the handler. To check a string with a length constraint pydantic reads it as
  UTF-8, so it refuses a string with a lone surrogate before it looks at the length; the
  literal is compared as it is; \<^verbatim>\<open>base_url\<close>, a plain optional string, is never refused.
  The result lists the refused fields in the order of the class, each with the input
  that is refused. The body is accepted when the list is empty.
\<close>

definition field_errors :: "GenerateRequest \<Rightarrow> (pystr \<times> pystr) list" where
  "field_errors req =
     (if encodable (role_input req) \<and> 1 \<le> length (role_input req) \<and>
         length (role_input req) \<le> 500
      then [] else [(str_of ''role_input'', role_input req)]) @
     (if provider req \<in> set [str_of ''openai'', str_of ''gemini'', str_of ''claude'']
      then [] else [(str_of ''provider'', provider req)]) @
     (if encodable (api_key req) \<and> 1 \<le> length (api_key req)
      then [] else [(str_of ''api_key'', api_key req)]) @
     (if encodable (model req) \<and> 1 \<le> length (model req)
      then [] else [(str_of ''model'', model req)])"

section \<open>Exceptions\<close>

text \<open>
  The exceptions the libraries and the interpreter raise inside the adapters, by the
  classes the handler tells apart:
  \<^item> \<^verbatim>\<open>openai.AuthenticationError\<close> and \<^verbatim>\<open>openai.RateLimitError\<close>, with their message;
  \<^item> any other instance of \<^verbatim>\<open>openai.APIError\<close>, with the name of its class and its message
    (for this class \<^verbatim>\<open>str(e)\<close> is \<^verbatim>\<open>e.message\<close>);
  \<^item> \<^verbatim>\<open>httpx.HTTPStatusError\<close>, with \<^verbatim>\<open>str(e)\<close>, \<^verbatim>\<open>e.response.status_code\<close> and
    \<^verbatim>\<open>e.response.text\<close>;
  \<^item> any other subclass of \<^verbatim>\<open>Exception\<close>, with the name of its class and \<^verbatim>\<open>str(e)\<close>.
  What is raised inside the \<^verbatim>\<open>try\<close> block of the handler is one of these or the
  \<^verbatim>\<open>HTTPException\<close> of the framework, which only the handler itself raises.
\<close>

datatype exn =
    AuthenticationError pystr
  | RateLimitError pystr
  | APIError pystr pystr
  | HTTPStatusError pystr nat pystr
  | OtherException pystr pystr

datatype raised =
    HTTPException nat pystr
  | Raised exn

datatype exc_class =
    Cls_HTTPException
  | Cls_AuthenticationError
  | Cls_RateLimitError
  | Cls_APIError
  | Cls_HTTPStatusError
  | Cls_Exception

text \<open>
  \<open>isinstance\<close> is the test of an \<^verbatim>\<open>except\<close> clause: every class is a subclass of
  \<^verbatim>\<open>Exception\<close>, and the two special errors of the SDK are subclasses of its \<^verbatim>\<open>APIError\<close>.
\<close>

fun isinstance :: "raised \<Rightarrow> exc_class \<Rightarrow> bool" where
  "isinstance x Cls_Exception = True"
| "isinstance (HTTPException s d) c = (c = Cls_HTTPException)"
| "isinstance (Raised (AuthenticationError m)) c = (c = Cls_AuthenticationError \<or> c = Cls_APIError)"
| "isinstance (Raised (RateLimitError m)) c = (c = Cls_RateLimitError \<or> c = Cls_APIError)"
| "isinstance (Raised (APIError n m)) c = (c = Cls_APIError)"
| "isinstance (Raised (HTTPStatusError m s b)) c = (c = Cls_HTTPStatusError)"
| "isinstance (Raised (OtherException n m)) c = False"

text \<open>\<^verbatim>\<open>type(e).__name__\<close> and \<^verbatim>\<open>str(e)\<close>.\<close>

fun type_name :: "exn \<Rightarrow> pystr" where
  "type_name (AuthenticationError m) = str_of ''AuthenticationError''"
| "type_name (RateLimitError m) = str_of ''RateLimitError''"
| "type_name (APIError n m) = n"
| "type_name (HTTPStatusError m s b) = str_of ''HTTPStatusError''"
| "type_name (OtherException n m) = n"

fun str :: "exn \<Rightarrow> pystr" where
  "str (AuthenticationError m) = m"
| "str (RateLimitError m) = m"
| "str (APIError n m) = m"
| "str (HTTPStatusError m s b) = m"
| "str (OtherException n m) = m"

text \<open>
  The attributes the typed clauses read. Each is read only under the \<open>isinstance\<close> test
  of its clause; on the other classes, where Python has no such attribute, the value
  here is the empty string or \<open>0\<close> and is never used.
\<close>

fun api_message :: "exn \<Rightarrow> pystr" where
  "api_message (AuthenticationError m) = m"
| "api_message (RateLimitError m) = m"
| "api_message (APIError n m) = m"
| "api_message (HTTPStatusError m s b) = []"
| "api_message (OtherException n m) = []"

fun response_status_code :: "exn \<Rightarrow> nat" where
  "response_status_code (HTTPStatusError m s b) = s"
| "response_status_code (AuthenticationError m) = 0"
| "response_status_code (RateLimitError m) = 0"
| "response_status_code (APIError n m) = 0"
| "response_status_code (OtherException n m) = 0"

fun response_text :: "exn \<Rightarrow> pystr" where
  "response_text (HTTPStatusError m s b) = b"
| "response_text (AuthenticationError m) = []"
| "response_text (RateLimitError m) = []"
| "response_text (APIError n m) = []"
| "response_text (OtherException n m) = []"

text \<open>
  Errors the interpreter and the libraries raise in the program's own expressions: an
  index into an empty list, \<^verbatim>\<open>.get\<close> on a value that is no dictionary, a subscript on a
  value that has none, a missing key, a body that is not JSON, and a \<^verbatim>\<open>prompt\<close> that is
  no string when \<^verbatim>\<open>GenerateResponse\<close> is built. The class names are fixed; the message
  texts belong to the interpreter and the libraries and are a parameter (\<open>fault_str\<close>
  below).
\<close>

datatype fault =
    IndexError
  | AttributeError
  | TypeError
  | KeyError
  | JSONDecodeError
  | ValidationError

fun fault_name :: "fault \<Rightarrow> pystr" where
  "fault_name IndexError = str_of ''IndexError''"
| "fault_name AttributeError = str_of ''AttributeError''"
| "fault_name TypeError = str_of ''TypeError''"
| "fault_name KeyError = str_of ''KeyError''"
| "fault_name JSONDecodeError = str_of ''JSONDecodeError''"
| "fault_name ValidationError = str_of ''ValidationError''"

section \<open>The outside world\<close>

text \<open>
  The three outbound calls, with everything the adapters put in them, and the three
  upstream services as functions from the call to its outcome.
\<close>

record chat_completion_call =
  client_api_key :: pystr
  client_base_url :: pystr
  create_model :: pystr
  create_messages :: "(pystr \<times> pystr) list"
  create_temperature :: rat

record http_post_call =
  post_url :: pystr
  post_headers :: "(pystr \<times> pystr) list"
  post_json :: pyval
  client_timeout :: nat

record generate_content_call =
  genai_api_key :: pystr
  genai_base_url :: "pystr option"
  genai_model :: pystr
  genai_contents :: pystr

datatype outbound =
    OpenAI_call chat_completion_call
  | HTTP_call http_post_call
  | GenAI_call generate_content_call

text \<open>
  An HTTP response: its status, its body, and what \<^verbatim>\<open>response.json()\<close> returns
  (\<open>None\<close> when the body is not JSON).
\<close>

record http_response =
  status_code :: nat
  body_text :: pystr
  body_json :: "pyval option"

text \<open>
  \<open>chat_completions_create\<close> gives the \<^verbatim>\<open>message.content\<close> of each choice of the
  completion; \<open>generate_content\<close> gives \<^verbatim>\<open>response.text\<close>. \<open>status_error_str\<close> is the
  text httpx gives the error it raises in \<^verbatim>\<open>raise_for_status\<close>.
\<close>

record world =
  chat_completions_create :: "chat_completion_call \<Rightarrow> exn + pystr option list"
  httpx_post :: "http_post_call \<Rightarrow> exn + http_response"
  generate_content :: "generate_content_call \<Rightarrow> exn + pystr option"
  status_error_str :: "http_post_call \<Rightarrow> http_response \<Rightarrow> pystr"
  fault_str :: "fault \<Rightarrow> pyval \<Rightarrow> pystr"

definition raise_fault :: "world \<Rightarrow> fault \<Rightarrow> pyval \<Rightarrow> exn" where
  "raise_fault w f v = OtherException (fault_name f) (fault_str w f v)"

section \<open>Provider adapters\<close>

text \<open>
  Each adapter returns the outbound calls it made, in order, and its outcome: the
  exception it raised or the value it returned.
\<close>

text \<open>The f-string that wraps the role, lines 118, 138 and 156.\<close>

definition role_wrapper :: pystr where
  "role_wrapper =
     [35831, 20026, 20197, 19979, 35282, 33394, 29983, 25104, 19987, 19994, 30340,
      25552, 31034, 35789, 65306]"

definition wrapped_role :: "GenerateRequest \<Rightarrow> pystr" where
  "wrapped_role req = role_wrapper @ role_input req"

definition generate_with_openai ::
  "globals \<Rightarrow> world \<Rightarrow> GenerateRequest \<Rightarrow> outbound list \<times> (exn + pyval)" where
  "generate_with_openai g w req =
     (let call = \<lparr>client_api_key = api_key req,
                  client_base_url = str_or (base_url req) (str_of ''https://api.openai.com/v1''),
                  create_model = model req,
                  create_messages =
                    [(str_of ''system'', SYSTEM_PROMPT g),
                     (str_of ''user'', wrapped_role req)],
                  create_temperature = 7 / 10\<rparr>
      in ([OpenAI_call call],
          case chat_completions_create w call of
            Inl e \<Rightarrow> Inl e
          | Inr choices \<Rightarrow>
              (case choices of
                 [] \<Rightarrow> Inl (raise_fault w IndexError (PyList []))
               | content # rest \<Rightarrow> Inr (PyStr (str_or content [])))))"

text \<open>\<^verbatim>\<open>d.get(key)\<close>, \<^verbatim>\<open>v[0]\<close> and \<^verbatim>\<open>v[key]\<close> on the values JSON decodes to.\<close>

fun dict_get :: "world \<Rightarrow> pyval \<Rightarrow> pystr \<Rightarrow> exn + pyval" where
  "dict_get w (PyDict kvs) key =
     (case map_of kvs key of None \<Rightarrow> Inr PyNone | Some v \<Rightarrow> Inr v)"
| "dict_get w v key = Inl (raise_fault w AttributeError v)"

fun first_item :: "world \<Rightarrow> pyval \<Rightarrow> exn + pyval" where
  "first_item w (PyList (x # xs)) = Inr x"
| "first_item w (PyList []) = Inl (raise_fault w IndexError (PyList []))"
| "first_item w (PyStr (c # cs)) = Inr (PyStr [c])"
| "first_item w (PyStr []) = Inl (raise_fault w IndexError (PyStr []))"
| "first_item w (PyDict kvs) = Inl (raise_fault w KeyError (PyDict kvs))"
| "first_item w v = Inl (raise_fault w TypeError v)"

fun item :: "world \<Rightarrow> pyval \<Rightarrow> pystr \<Rightarrow> exn + pyval" where
  "item w (PyDict kvs) key =
     (case map_of kvs key of
        None \<Rightarrow> Inl (raise_fault w KeyError (PyDict kvs))
      | Some v \<Rightarrow> Inr v)"
| "item w v key = Inl (raise_fault w TypeError v)"

text \<open>
  Line 145: \<^verbatim>\<open>data["content"][0]["text"] if data.get("content") else ""\<close>. The condition
  is evaluated first; each step that raises ends the evaluation.
\<close>

definition content_text :: "world \<Rightarrow> pyval \<Rightarrow> exn + pyval" where
  "content_text w data =
     (case dict_get w data (str_of ''content'') of
        Inl e \<Rightarrow> Inl e
      | Inr c \<Rightarrow>
          if truthy c then
            (case item w data (str_of ''content'') of
               Inl e \<Rightarrow> Inl e
             | Inr blocks \<Rightarrow>
                 (case first_item w blocks of
                    Inl e \<Rightarrow> Inl e
                  | Inr block \<Rightarrow> item w block (str_of ''text'')))
          else Inr (PyStr []))"

text \<open>\<^verbatim>\<open>response.is_success\<close> of httpx: the status is 2xx.\<close>

definition is_success :: "http_response \<Rightarrow> bool" where
  "is_success r \<longleftrightarrow> 200 \<le> status_code r \<and> status_code r \<le> 299"

text \<open>
  \<^verbatim>\<open>response.raise_for_status()\<close> of httpx raises \<^verbatim>\<open>HTTPStatusError\<close>, which carries the
  response, unless the response is a success.
\<close>

definition generate_with_claude ::
  "globals \<Rightarrow> world \<Rightarrow> GenerateRequest \<Rightarrow> outbound list \<times> (exn + pyval)" where
  "generate_with_claude g w req =
     (let base =
            (case base_url req of
               None \<Rightarrow> str_of ''https://api.anthropic.com''
             | Some u \<Rightarrow>
                 if u \<noteq> [] then rstrip (str_of ''/'') u
                 else str_of ''https://api.anthropic.com'');
          url = base @ str_of ''/v1/messages'';
          headers =
            [(str_of ''x-api-key'', api_key req),
             (str_of ''anthropic-version'', str_of ''2023-06-01''),
             (str_of ''content-type'', str_of ''application/json; charset=utf-8'')];
          payload =
            PyDict
              [(str_of ''model'', PyStr (model req)),
               (str_of ''max_tokens'', PyNum 4096),
               (str_of ''system'', PyStr (SYSTEM_PROMPT g)),
               (str_of ''messages'',
                  PyList [PyDict [(str_of ''role'', PyStr (str_of ''user'')),
                                  (str_of ''content'', PyStr (wrapped_role req))]])];
          call = \<lparr>post_url = url, post_headers = headers, post_json = payload,
                  client_timeout = 120\<rparr>
      in ([HTTP_call call],
          case httpx_post w call of
            Inl e \<Rightarrow> Inl e
          | Inr response \<Rightarrow>
              if \<not> is_success response then
                Inl (HTTPStatusError (status_error_str w call response)
                       (status_code response) (body_text response))
              else
                (case body_json response of
                   None \<Rightarrow> Inl (raise_fault w JSONDecodeError (PyStr (body_text response)))
                 | Some data \<Rightarrow> content_text w data)))"

text \<open>The prefix of the error the Gemini adapter raises, line 162.\<close>

definition gemini_failed :: pystr where
  "gemini_failed = str_of ''Gemini API '' @ [35843, 29992, 22833, 36133] @ str_of '': ''"

definition generate_with_gemini ::
  "globals \<Rightarrow> world \<Rightarrow> GenerateRequest \<Rightarrow> outbound list \<times> (exn + pyval)" where
  "generate_with_gemini g w req =
     (let http_options =
            (case base_url req of
               None \<Rightarrow> None
             | Some u \<Rightarrow> if u \<noteq> [] then Some u else None);
          call = \<lparr>genai_api_key = api_key req,
                  genai_base_url = http_options,
                  genai_model = model req,
                  genai_contents = SYSTEM_PROMPT g @ [10, 10] @ wrapped_role req\<rparr>
      in ([GenAI_call call],
          case generate_content w call of
            Inl e \<Rightarrow>
              Inl (OtherException (str_of ''Exception'')
                     (gemini_failed @ str e @ str_of '' ('' @ type_name e @ str_of '')''))
          | Inr t \<Rightarrow> Inr (PyStr (str_or t []))))"

section \<open>The handler\<close>

text \<open>The fixed texts of lines 177-210.\<close>

definition unsupported_provider :: pystr where
  "unsupported_provider = [19981, 25903, 25345, 30340] @ str_of '' AI '' @ [25552, 20379, 21830]"

definition empty_result :: pystr where
  "empty_result = [29983, 25104, 32467, 26524, 20026, 31354, 65292, 35831, 37325, 35797]"

definition key_invalid :: pystr where
  "key_invalid = [26080, 25928]"

definition too_frequent :: pystr where
  "too_frequent =
     [35831, 27714, 39057, 29575, 36229, 38480, 65292, 35831, 31245, 21518, 37325, 35797]"

definition service_error :: pystr where
  "service_error = [26381, 21153, 38169, 35823] @ str_of '': ''"

definition key_invalid_or_expired :: pystr where
  "key_invalid_or_expired =
     str_of ''API Key '' @ [26080, 25928, 25110, 24050, 36807, 26399] @ str_of '' (''"

definition timed_out :: pystr where
  "timed_out = [35831, 27714, 36229, 26102, 65292, 35831, 37325, 35797] @ str_of '' (''"

definition generation_failed :: pystr where
  "generation_failed = [29983, 25104, 22833, 36133] @ str_of '': ''"

text \<open>
  How the handler ends: it returns a \<^verbatim>\<open>GenerateResponse\<close> or raises an
  \<^verbatim>\<open>HTTPException\<close> with a status and a detail.
\<close>

datatype answer =
    Success pystr
  | HTTPError nat pystr

text \<open>
  Lines 170-177: the adapter is chosen by \<^verbatim>\<open>req.provider\<close>; the last branch raises.
\<close>

definition lift_exn :: "outbound list \<times> (exn + pyval) \<Rightarrow> outbound list \<times> (raised + pyval)" where
  "lift_exn r = (fst r, case snd r of Inl e \<Rightarrow> Inl (Raised e) | Inr v \<Rightarrow> Inr v)"

definition dispatch ::
  "globals \<Rightarrow> world \<Rightarrow> GenerateRequest \<Rightarrow> outbound list \<times> (raised + pyval)" where
  "dispatch g w req =
     (if provider req = str_of ''openai'' then lift_exn (generate_with_openai g w req)
      else if provider req = str_of ''claude'' then lift_exn (generate_with_claude g w req)
      else if provider req = str_of ''gemini'' then lift_exn (generate_with_gemini g w req)
      else ([], Inl (HTTPException 400 unsupported_provider)))"

text \<open>
  Lines 179-182: an empty result raises; \<^verbatim>\<open>GenerateResponse(prompt=prompt)\<close> accepts a
  string and raises a validation error on any other value.
\<close>

definition make_response :: "world \<Rightarrow> pyval \<Rightarrow> raised + pystr" where
  "make_response w prompt =
     (if \<not> truthy prompt then Inl (HTTPException 500 empty_result)
      else (case prompt of
              PyStr s \<Rightarrow> Inr s
            | _ \<Rightarrow> Inl (Raised (raise_fault w ValidationError prompt))))"

definition try_block ::
  "globals \<Rightarrow> world \<Rightarrow> GenerateRequest \<Rightarrow> outbound list \<times> (raised + pystr)" where
  "try_block g w req =
     (let r = dispatch g w req
      in (fst r, case snd r of Inl x \<Rightarrow> Inl x | Inr prompt \<Rightarrow> make_response w prompt))"

text \<open>Lines 199-210: the last clause, which looks at the text of the error.\<close>

definition by_message :: "exn \<Rightarrow> answer" where
  "by_message e =
     (let error_type = type_name e;
          error_msg = str e
      in if py_in (str_of ''authentication'') (lower error_msg) \<or>
            py_in (str_of ''api key'') (lower error_msg) \<or>
            py_in (str_of ''401'') error_msg
         then HTTPError 401 (key_invalid_or_expired @ error_type @ str_of '')'')
         else if py_in (str_of ''rate'') (lower error_msg) \<or>
                 py_in (str_of ''quota'') (lower error_msg) \<or>
                 py_in (str_of ''429'') error_msg
         then HTTPError 429 (too_frequent @ str_of '' ('' @ error_type @ str_of '')'')
         else if py_in (str_of ''timeout'') (lower error_msg)
         then HTTPError 504 (timed_out @ error_type @ str_of '')'')
         else HTTPError 500
                (generation_failed @ error_msg @ str_of '' ('' @ error_type @ str_of '')''))"

text \<open>
  Lines 184-210: the \<^verbatim>\<open>except\<close> clauses, tried in the order of the source; the first
  whose class the exception is an instance of handles it.
\<close>

fun except_clauses :: "raised \<Rightarrow> answer" where
  "except_clauses (HTTPException s d) = HTTPError s d"
| "except_clauses (Raised e) =
     (if isinstance (Raised e) Cls_AuthenticationError then
        HTTPError 401 (str_of ''OpenAI API Key '' @ key_invalid)
      else if isinstance (Raised e) Cls_RateLimitError then
        HTTPError 429 (str_of ''OpenAI '' @ too_frequent)
      else if isinstance (Raised e) Cls_APIError then
        HTTPError 502 (str_of ''OpenAI '' @ service_error @ api_message e)
      else if isinstance (Raised e) Cls_HTTPStatusError then
        (let status = response_status_code e
         in if status = 401 then HTTPError 401 (str_of ''Claude API Key '' @ key_invalid)
            else if status = 429 then HTTPError 429 (str_of ''Claude '' @ too_frequent)
            else HTTPError 502 (str_of ''Claude '' @ service_error @ response_text e))
      else by_message e)"

definition generate_prompt ::
  "globals \<Rightarrow> world \<Rightarrow> GenerateRequest \<Rightarrow> outbound list \<times> answer" where
  "generate_prompt g w req =
     (let r = try_block g w req
      in (fst r, case snd r of Inl x \<Rightarrow> except_clauses x | Inr prompt \<Rightarrow> Success prompt))"

text \<open>
  The module state across a call. Each function of the module is given, beside its
  result, the module state it leaves. None of the four has a statement that assigns a
  global, so each leaves the state it found; the dispatch and the handler pass on the
  state that the function they call leaves.
\<close>

definition generate_with_openai_st ::
  "globals \<Rightarrow> world \<Rightarrow> GenerateRequest \<Rightarrow> (outbound list \<times> (exn + pyval)) \<times> globals" where
  "generate_with_openai_st g w req = (generate_with_openai g w req, g)"

definition generate_with_claude_st ::
  "globals \<Rightarrow> world \<Rightarrow> GenerateRequest \<Rightarrow> (outbound list \<times> (exn + pyval)) \<times> globals" where
  "generate_with_claude_st g w req = (generate_with_claude g w req, g)"

definition generate_with_gemini_st ::
  "globals \<Rightarrow> world \<Rightarrow> GenerateRequest \<Rightarrow> (outbound list \<times> (exn + pyval)) \<times> globals" where
  "generate_with_gemini_st g w req = (generate_with_gemini g w req, g)"

definition dispatch_st ::
  "globals \<Rightarrow> world \<Rightarrow> GenerateRequest \<Rightarrow> (outbound list \<times> (raised + pyval)) \<times> globals" where
  "dispatch_st g w req =
     (if provider req = str_of ''openai'' then
        (let r = generate_with_openai_st g w req in (lift_exn (fst r), snd r))
      else if provider req = str_of ''claude'' then
        (let r = generate_with_claude_st g w req in (lift_exn (fst r), snd r))
      else if provider req = str_of ''gemini'' then
        (let r = generate_with_gemini_st g w req in (lift_exn (fst r), snd r))
      else (([], Inl (HTTPException 400 unsupported_provider)), g))"

definition generate_prompt_st ::
  "globals \<Rightarrow> world \<Rightarrow> GenerateRequest \<Rightarrow> (outbound list \<times> answer) \<times> globals" where
  "generate_prompt_st g w req =
     (let r = dispatch_st g w req;
          tried = (case snd (fst r) of Inl x \<Rightarrow> Inl x | Inr prompt \<Rightarrow> make_response w prompt)
      in ((fst (fst r),
           case tried of Inl x \<Rightarrow> except_clauses x | Inr prompt \<Rightarrow> Success prompt),
          snd r))"

text \<open>
  What the route \<^verbatim>\<open>POST /api/generate\<close> sends. The framework answers a refused body
  with status 422 and a JSON body that lists the errors, each with the refused input;
  it answers an \<^verbatim>\<open>HTTPException\<close> with its status and its detail, and a returned
  \<^verbatim>\<open>GenerateResponse\<close> with status 200 and the prompt. The JSON body is encoded as
  UTF-8: when a string in it has a lone surrogate the encoding fails, and the client
  gets a plain 500 instead.
\<close>

datatype body =
    Prompt_body pystr
  | Detail_body pystr
  | Errors_body "(pystr \<times> pystr) list"
  | Internal_Server_Error

datatype reply = Reply nat body

fun body_encodable :: "body \<Rightarrow> bool" where
  "body_encodable (Prompt_body p) = encodable p"
| "body_encodable (Detail_body d) = encodable d"
| "body_encodable (Errors_body es) = list_all (\<lambda>e. encodable (snd e)) es"
| "body_encodable Internal_Server_Error = True"

definition respond :: "nat \<Rightarrow> body \<Rightarrow> reply" where
  "respond status b = (if body_encodable b then Reply status b else Reply 500 Internal_Server_Error)"

fun reply_of :: "answer \<Rightarrow> reply" where
  "reply_of (Success p) = respond 200 (Prompt_body p)"
| "reply_of (HTTPError s d) = respond s (Detail_body d)"

text \<open>
  The route: the framework validates the body and calls the handler only when it is
  accepted. The result is the outbound calls, the reply, and the module state after
  the request.
\<close>

definition post_api_generate ::
  "globals \<Rightarrow> world \<Rightarrow> GenerateRequest \<Rightarrow> outbound list \<times> reply \<times> globals" where
  "post_api_generate g w req =
     (if field_errors req = [] then
        (let r = generate_prompt_st g w req
         in (fst (fst r), reply_of (snd (fst r)), snd r))
      else ([], respond 422 (Errors_body (field_errors req)), g))"

text \<open>
  The process serves requests one after the other, each against the world of its
  moment and in the module state the request before it left.
\<close>

fun serve ::
  "globals \<Rightarrow> (world \<times> GenerateRequest) list \<Rightarrow> (outbound list \<times> reply) list \<times> globals" where
  "serve g [] = ([], g)"
| "serve g ((w, req) # rest) =
     (let r = post_api_generate g w req;
          rs = serve (snd (snd r)) rest
      in ((fst r, fst (snd r)) # fst rs, snd rs))"

section \<open>Observations on calls and errors\<close>

text \<open>Which adapter an outbound call comes from.\<close>

datatype adapter = OpenAI_adapter | Anthropic_adapter | Gemini_adapter

fun adapter_of :: "outbound \<Rightarrow> adapter" where
  "adapter_of (OpenAI_call c) = OpenAI_adapter"
| "adapter_of (HTTP_call c) = Anthropic_adapter"
| "adapter_of (GenAI_call c) = Gemini_adapter"

text \<open>The URLs of the HTTP requests among the outbound calls.\<close>

fun request_urls :: "outbound list \<Rightarrow> pystr list" where
  "request_urls [] = []"
| "request_urls (HTTP_call c # cs) = post_url c # request_urls cs"
| "request_urls (c # cs) = request_urls cs"

text \<open>The base URLs of the SDK clients among the outbound calls.\<close>

fun openai_base_urls :: "outbound list \<Rightarrow> pystr list" where
  "openai_base_urls [] = []"
| "openai_base_urls (OpenAI_call c # cs) = client_base_url c # openai_base_urls cs"
| "openai_base_urls (c # cs) = openai_base_urls cs"

text \<open>
  A call carries the template \<open>t\<close>: as the content of the system message, as the
  \<open>system\<close> field of the JSON body, or as the head of the single content string.
\<close>

fun carries :: "pystr \<Rightarrow> outbound \<Rightarrow> bool" where
  "carries t (OpenAI_call c) = (map_of (create_messages c) (str_of ''system'') = Some t)"
| "carries t (HTTP_call c) =
     (case post_json c of
        PyDict kvs \<Rightarrow> map_of kvs (str_of ''system'') = Some (PyStr t)
      | _ \<Rightarrow> False)"
| "carries t (GenAI_call c) = (take (length t) (genai_contents c) = t)"

text \<open>The signals of an error: its class and status, and the marks in its message.\<close>

definition sdk_authentication :: "exn \<Rightarrow> bool" where
  "sdk_authentication e = isinstance (Raised e) Cls_AuthenticationError"

definition sdk_rate_limit :: "exn \<Rightarrow> bool" where
  "sdk_rate_limit e = isinstance (Raised e) Cls_RateLimitError"

definition sdk_api_error :: "exn \<Rightarrow> bool" where
  "sdk_api_error e = isinstance (Raised e) Cls_APIError"

definition http_status_error :: "exn \<Rightarrow> bool" where
  "http_status_error e = isinstance (Raised e) Cls_HTTPStatusError"

definition http_status :: "exn \<Rightarrow> nat \<Rightarrow> bool" where
  "http_status e s = (http_status_error e \<and> response_status_code e = s)"

definition typed :: "exn \<Rightarrow> bool" where
  "typed e = (sdk_api_error e \<or> http_status_error e)"

definition auth_marked :: "pystr \<Rightarrow> bool" where
  "auth_marked m =
     (py_in (str_of ''authentication'') (lower m) \<or> py_in (str_of ''api key'') (lower m) \<or>
      py_in (str_of ''401'') m)"

definition rate_marked :: "pystr \<Rightarrow> bool" where
  "rate_marked m =
     (py_in (str_of ''rate'') (lower m) \<or> py_in (str_of ''quota'') (lower m) \<or>
      py_in (str_of ''429'') m)"

definition timeout_marked :: "pystr \<Rightarrow> bool" where
  "timeout_marked m = py_in (str_of ''timeout'') (lower m)"

text \<open>An ordered list of rules, each a test and a status; the first test that holds decides.\<close>

fun first_match :: "(('a \<Rightarrow> bool) \<times> nat) list \<Rightarrow> nat \<Rightarrow> 'a \<Rightarrow> nat" where
  "first_match [] d e = d"
| "first_match ((test, status) # rules) d e = (if test e then status else first_match rules d e)"

text \<open>
  The six rules in the words of the specification (section 4.2): rules 1 and 2 look at
  the class, the status and the message of every error, before rules 3 and 4 look at
  the class.
\<close>

definition rules_as_specified :: "((exn \<Rightarrow> bool) \<times> nat) list" where
  "rules_as_specified =
     [(\<lambda>e. sdk_authentication e \<or> http_status e 401 \<or> auth_marked (str e), 401),
      (\<lambda>e. sdk_rate_limit e \<or> http_status e 429 \<or> rate_marked (str e), 429),
      (\<lambda>e. http_status_error e, 502),
      (\<lambda>e. sdk_api_error e, 502),
      (\<lambda>e. timeout_marked (str e), 504)]"

text \<open>
  The same six rules with the message tests of rules 1 and 2 confined to the errors that
  carry no typed signal.
\<close>

definition rules_typed_first :: "((exn \<Rightarrow> bool) \<times> nat) list" where
  "rules_typed_first =
     [(\<lambda>e. sdk_authentication e \<or> http_status e 401 \<or> (\<not> typed e \<and> auth_marked (str e)), 401),
      (\<lambda>e. sdk_rate_limit e \<or> http_status e 429 \<or> (\<not> typed e \<and> rate_marked (str e)), 429),
      (\<lambda>e. http_status_error e, 502),
      (\<lambda>e. sdk_api_error e, 502),
      (\<lambda>e. timeout_marked (str e), 504)]"

section \<open>Sample requests and worlds\<close>

definition python_expert :: GenerateRequest where
  "python_expert =
     \<lparr>role_input = str_of ''Python'' @ [19987, 23478],
      provider = str_of ''openai'',
      api_key = str_of ''sk-test'',
      base_url = None,
      model = str_of ''gpt-4o''\<rparr>"

text \<open>A world where every provider answers \<open>T\<close>.\<close>

definition world_T :: world where
  "world_T =
     \<lparr>chat_completions_create = (\<lambda>c. Inr [Some (str_of ''T'')]),
      httpx_post =
        (\<lambda>c. Inr \<lparr>status_code = 200, body_text = str_of ''{...}'',
                   body_json =
                     Some (PyDict [(str_of ''content'',
                             PyList [PyDict [(str_of ''type'', PyStr (str_of ''text'')),
                                             (str_of ''text'', PyStr (str_of ''T''))]])])\<rparr>),
      generate_content = (\<lambda>c. Inr (Some (str_of ''T''))),
      status_error_str = (\<lambda>c r. str_of ''status error''),
      fault_str = (\<lambda>f v. str_of ''fault'')\<rparr>"

text \<open>A world where the completion has one choice with no text.\<close>

definition world_no_text :: world where
  "world_no_text = world_T\<lparr>chat_completions_create := (\<lambda>c. Inr [None])\<rparr>"

text \<open>A world where the SDK raises \<open>e\<close>, and one where the HTTP service answers \<open>r\<close>.\<close>

definition world_raising :: "exn \<Rightarrow> world" where
  "world_raising e =
     world_T\<lparr>chat_completions_create := (\<lambda>c. Inl e), httpx_post := (\<lambda>c. Inl e),
             generate_content := (\<lambda>c. Inl e)\<rparr>"

definition world_answering :: "http_response \<Rightarrow> world" where
  "world_answering r = world_T\<lparr>httpx_post := (\<lambda>c. Inr r)\<rparr>"

text \<open>
  Sample errors: an \<^verbatim>\<open>openai.InternalServerError\<close> (a subclass of \<^verbatim>\<open>openai.APIError\<close>)
  that a gateway answers with when its own upstream limits the rate or refuses the
  key, and untyped errors with marks in their message.
\<close>

definition upstream_rate_error :: exn where
  "upstream_rate_error =
     APIError (str_of ''InternalServerError'')
       (str_of ''Error code: 500 - upstream rate limit exceeded'')"

definition upstream_401_error :: exn where
  "upstream_401_error =
     APIError (str_of ''InternalServerError'')
       (str_of ''Error code: 500 - upstream returned 401'')"

definition key_quota_error :: exn where
  "key_quota_error =
     OtherException (str_of ''RuntimeError'') (str_of ''quota exceeded for this API key'')"

definition plain_timeout_error :: exn where
  "plain_timeout_error =
     OtherException (str_of ''RuntimeError'') (str_of ''Timeout while waiting'')"

definition bad_key_error :: exn where
  "bad_key_error = AuthenticationError (str_of ''Incorrect API key provided'')"

definition slow_down_error :: exn where
  "slow_down_error = RateLimitError (str_of ''slow down'')"

text \<open>The sample request, sent to the Anthropic-style provider.\<close>

definition claude_expert :: GenerateRequest where
  "claude_expert =
     python_expert\<lparr>provider := str_of ''claude'', model := str_of ''claude-3-5-sonnet''\<rparr>"

text \<open>The sample request, sent to the Gemini-style provider.\<close>

definition gemini_expert :: GenerateRequest where
  "gemini_expert =
     python_expert\<lparr>provider := str_of ''gemini'', model := str_of ''gemini-1.5-pro''\<rparr>"


text \<open>An HTTP answer that is no success.\<close>

definition overloaded_response :: http_response where
  "overloaded_response =
     \<lparr>status_code = 529, body_text = str_of ''overloaded'', body_json = None\<rparr>"

section \<open>Facts about strings\<close>

lemma take_length_eq_iff: "take (length n) h = n \<longleftrightarrow> (\<exists>s. h = n @ s)"
  by (metis append_take_drop_id append_eq_conv_conj)

lemma py_in_iff: "py_in n h \<longleftrightarrow> (\<exists>p s. h = p @ n @ s)"
proof (induction h)
  case Nil
  show ?case by simp
next
  case (Cons c cs)
  have "(\<exists>p s. c # cs = p @ n @ s) \<longleftrightarrow> (\<exists>s. c # cs = n @ s) \<or> (\<exists>p s. cs = p @ n @ s)"
  proof
    assume "\<exists>p s. c # cs = p @ n @ s"
    then obtain p s where eq: "c # cs = p @ n @ s" by blast
    show "(\<exists>s. c # cs = n @ s) \<or> (\<exists>p s. cs = p @ n @ s)"
    proof (cases p)
      case Nil
      with eq show ?thesis by auto
    next
      case (Cons a p')
      with eq have "cs = p' @ n @ s" by simp
      then show ?thesis by blast
    qed
  next
    assume "(\<exists>s. c # cs = n @ s) \<or> (\<exists>p s. cs = p @ n @ s)"
    then show "\<exists>p s. c # cs = p @ n @ s"
    proof
      assume "\<exists>s. c # cs = n @ s"
      then obtain s where "c # cs = [] @ n @ s" by auto
      then show ?thesis by blast
    next
      assume "\<exists>p s. cs = p @ n @ s"
      then obtain p s where "c # cs = (c # p) @ n @ s" by auto
      then show ?thesis by blast
    qed
  qed
  with Cons show ?case
    by (simp only: py_in.simps take_length_eq_iff)
qed

lemma py_in_append_left: "py_in n a \<Longrightarrow> py_in n (a @ b)"
  unfolding py_in_iff by (metis append.assoc)

lemma py_in_append_right: "py_in n b \<Longrightarrow> py_in n (a @ b)"
  unfolding py_in_iff by (metis append.assoc)

lemma lower_append: "lower (a @ b) = lower a @ lower b"
  by (simp add: lower_def)

lemma authentication_in_class_name:
  "py_in (str_of ''authentication'') (lower (str_of ''AuthenticationError''))"
  by (simp add: str_of_def lower_def lower_cp_def)

lemma dropWhile_replicate_append:
  "P c \<Longrightarrow> dropWhile P (replicate n c @ xs) = dropWhile P xs"
  by (induction n) auto

lemma rstrip_replicate:
  "c \<in> set chars \<Longrightarrow> rstrip chars (s @ replicate n c) = rstrip chars s"
  by (simp add: rstrip_def dropWhile_replicate_append)

lemma rstrip_decompose:
  "\<exists>t. s = rstrip chars s @ t \<and> set t \<subseteq> set chars"
proof -
  have "rev s = takeWhile (\<lambda>c. c \<in> set chars) (rev s) @ dropWhile (\<lambda>c. c \<in> set chars) (rev s)"
    by simp
  then have "s = rev (dropWhile (\<lambda>c. c \<in> set chars) (rev s)) @ rev (takeWhile (\<lambda>c. c \<in> set chars) (rev s))"
    by (metis rev_append rev_rev_ident)
  moreover have "set (rev (takeWhile (\<lambda>c. c \<in> set chars) (rev s))) \<subseteq> set chars"
    by (auto dest: set_takeWhileD)
  ultimately show ?thesis unfolding rstrip_def by blast
qed

lemma rstrip_last:
  "rstrip chars s \<noteq> [] \<Longrightarrow> last (rstrip chars s) \<notin> set chars"
  unfolding rstrip_def
  by (metis (mono_tags, lifting) hd_dropWhile last_rev rev_is_Nil_conv)

section \<open>Dispatch\<close>

lemma str_of_provider_distinct:
  "str_of ''openai'' \<noteq> str_of ''claude''" "str_of ''openai'' \<noteq> str_of ''gemini''"
  "str_of ''claude'' \<noteq> str_of ''gemini''"
  by (simp_all add: str_of_def)

lemma fst_generate_prompt: "fst (generate_prompt g w req) = fst (dispatch g w req)"
  by (simp add: generate_prompt_def try_block_def Let_def)

lemma fst_dispatch_openai:
  "provider req = str_of ''openai'' \<Longrightarrow>
   fst (dispatch g w req) = fst (generate_with_openai g w req)"
  by (simp add: dispatch_def lift_exn_def)

lemma fst_dispatch_claude:
  "provider req = str_of ''claude'' \<Longrightarrow>
   fst (dispatch g w req) = fst (generate_with_claude g w req)"
  by (simp add: dispatch_def lift_exn_def str_of_provider_distinct [symmetric])

lemma fst_dispatch_gemini:
  "provider req = str_of ''gemini'' \<Longrightarrow>
   fst (dispatch g w req) = fst (generate_with_gemini g w req)"
  by (simp add: dispatch_def lift_exn_def str_of_provider_distinct [symmetric])

lemma adapters_of_openai: "map adapter_of (fst (generate_with_openai g w req)) = [OpenAI_adapter]"
  by (simp add: generate_with_openai_def Let_def)

lemma adapters_of_claude: "map adapter_of (fst (generate_with_claude g w req)) = [Anthropic_adapter]"
  by (simp add: generate_with_claude_def Let_def)

lemma adapters_of_gemini: "map adapter_of (fst (generate_with_gemini g w req)) = [Gemini_adapter]"
  by (simp add: generate_with_gemini_def Let_def)

text \<open>
  Claim C1. For every valid request the handler makes exactly one outbound call, and it
  is the call of the adapter bound to the provider tag: the OpenAI-style adapter for
  \<open>openai\<close>, the Anthropic-style adapter for \<open>claude\<close>, the Gemini-style adapter for
  \<open>gemini\<close>. No request reaches a second provider.
\<close>

theorem dispatcher_selects_one_adapter:
  assumes "validate req"
  shows "(provider req = str_of ''openai'' \<and>
            map adapter_of (fst (generate_prompt g w req)) = [OpenAI_adapter]) \<or>
         (provider req = str_of ''claude'' \<and>
            map adapter_of (fst (generate_prompt g w req)) = [Anthropic_adapter]) \<or>
         (provider req = str_of ''gemini'' \<and>
            map adapter_of (fst (generate_prompt g w req)) = [Gemini_adapter])"
proof -
  from assms have "provider req = str_of ''openai'' \<or> provider req = str_of ''claude'' \<or>
      provider req = str_of ''gemini''"
    by (auto simp: validate_def)
  then show ?thesis
    by (auto simp: fst_generate_prompt fst_dispatch_openai fst_dispatch_claude
        fst_dispatch_gemini adapters_of_openai adapters_of_claude adapters_of_gemini)
qed

lemma validate_python_expert: "validate python_expert"
  by (simp add: validate_def python_expert_def str_of_def)

theorem dispatcher_selects_one_adapter_witness:
  "validate python_expert \<and>
   map adapter_of (fst (generate_prompt module_load world_T python_expert)) = [OpenAI_adapter]"
proof -
  have p: "provider python_expert = str_of ''openai''"
    by (simp add: python_expert_def)
  from dispatcher_selects_one_adapter [OF validate_python_expert, of module_load world_T]
  have "map adapter_of (fst (generate_prompt module_load world_T python_expert)) = [OpenAI_adapter]"
    by (simp add: p str_of_provider_distinct)
  with validate_python_expert show ?thesis by simp
qed

section \<open>Empty results and validation\<close>

lemma make_response_Inr: "make_response w v = Inr p \<Longrightarrow> p \<noteq> []"
  by (cases v) (auto simp: make_response_def split: if_splits)

lemma except_clauses_not_success: "except_clauses x \<noteq> Success p"
  by (cases x) (auto simp: by_message_def Let_def)

text \<open>
  Claim C2. When the selected adapter returns the empty string, the endpoint answers
  500 with the empty-result message, not 200; and every 200 answer carries a prompt
  that is not empty.
\<close>

theorem empty_result_is_error:
  "(snd (dispatch g w req) = Inr (PyStr []) \<longrightarrow>
      snd (generate_prompt g w req) = HTTPError 500 empty_result) \<and>
   (snd (generate_prompt g w req) = Success p \<longrightarrow> p \<noteq> [])"
proof (intro conjI impI)
  assume "snd (dispatch g w req) = Inr (PyStr [])"
  then show "snd (generate_prompt g w req) = HTTPError 500 empty_result"
    by (simp add: generate_prompt_def try_block_def make_response_def Let_def)
next
  assume ok: "snd (generate_prompt g w req) = Success p"
  show "p \<noteq> []"
  proof (cases "snd (try_block g w req)")
    case (Inl x)
    with ok show ?thesis
      by (simp add: generate_prompt_def Let_def except_clauses_not_success)
  next
    case (Inr q)
    with ok have "q = p"
      by (simp add: generate_prompt_def Let_def)
    with Inr obtain v where "make_response w v = Inr p"
      by (auto simp: try_block_def Let_def split: sum.splits)
    then show ?thesis by (rule make_response_Inr)
  qed
qed

lemma dispatch_no_text:
  "snd (dispatch module_load world_no_text python_expert) = Inr (PyStr [])"
  by (simp add: dispatch_def lift_exn_def generate_with_openai_def world_no_text_def
      world_T_def python_expert_def str_or_def Let_def)

lemma generate_prompt_T:
  "snd (generate_prompt module_load world_T python_expert) = Success (str_of ''T'')"
  by (simp add: generate_prompt_def try_block_def make_response_def dispatch_def lift_exn_def
      generate_with_openai_def world_T_def python_expert_def str_or_def str_of_def Let_def)

theorem empty_result_is_error_witness:
  "snd (dispatch module_load world_no_text python_expert) = Inr (PyStr []) \<and>
   snd (generate_prompt module_load world_no_text python_expert) = HTTPError 500 empty_result \<and>
   snd (generate_prompt module_load world_T python_expert) = Success (str_of ''T'') \<and>
   str_of ''T'' \<noteq> []"
proof -
  note a = empty_result_is_error [of module_load world_no_text python_expert "[]",
      THEN conjunct1, rule_format, OF dispatch_no_text]
  note b = empty_result_is_error [of module_load world_T python_expert "str_of ''T''",
      THEN conjunct2, rule_format, OF generate_prompt_T]
  from a b dispatch_no_text generate_prompt_T show ?thesis by simp
qed

section \<open>Classification of errors\<close>

lemma generate_prompt_raised:
  "snd (dispatch g w req) = Inl x \<Longrightarrow> snd (generate_prompt g w req) = except_clauses x"
  by (simp add: generate_prompt_def try_block_def Let_def)

lemma except_clauses_by_message:
  "\<not> typed e \<Longrightarrow> except_clauses (Raised e) = by_message e"
  by (cases e) (simp_all add: typed_def sdk_api_error_def http_status_error_def)

lemma by_message_401:
  "auth_marked (str e) \<Longrightarrow>
   by_message e = HTTPError 401 (key_invalid_or_expired @ type_name e @ str_of '')'')"
  by (simp add: by_message_def auth_marked_def Let_def)

lemma by_message_429:
  "\<not> auth_marked (str e) \<Longrightarrow> rate_marked (str e) \<Longrightarrow>
   by_message e = HTTPError 429 (too_frequent @ str_of '' ('' @ type_name e @ str_of '')'')"
  by (simp add: by_message_def auth_marked_def rate_marked_def Let_def)

lemma by_message_504:
  "\<not> auth_marked (str e) \<Longrightarrow> \<not> rate_marked (str e) \<Longrightarrow> timeout_marked (str e) \<Longrightarrow>
   by_message e = HTTPError 504 (timed_out @ type_name e @ str_of '')'')"
  by (simp add: by_message_def auth_marked_def rate_marked_def timeout_marked_def Let_def)

lemma by_message_500:
  "\<not> auth_marked (str e) \<Longrightarrow> \<not> rate_marked (str e) \<Longrightarrow> \<not> timeout_marked (str e) \<Longrightarrow>
   by_message e =
     HTTPError 500 (generation_failed @ str e @ str_of '' ('' @ type_name e @ str_of '')'')"
  by (simp add: by_message_def auth_marked_def rate_marked_def timeout_marked_def Let_def)

lemma by_message_status:
  "\<exists>d. by_message e =
     HTTPError (if auth_marked (str e) then 401 else if rate_marked (str e) then 429
                else if timeout_marked (str e) then 504 else 500) d"
  by (simp add: by_message_401 by_message_429 by_message_504 by_message_500)

text \<open>
  Claim C3 (amended). The classifier applies the six rules in order, the first match
  winning, with the tests on the message in rules 1 and 2 applied only to errors that
  are neither an \<^verbatim>\<open>openai.APIError\<close> nor an \<^verbatim>\<open>httpx.HTTPStatusError\<close>: (1) an
  \<^verbatim>\<open>openai.AuthenticationError\<close>, an HTTP-status error with status 401, or such an untyped
  error whose message carries a mark of authentication, is 401; (2) an
  \<^verbatim>\<open>openai.RateLimitError\<close>, an HTTP-status error with status 429, or an untyped error whose
  message carries a mark of rate or quota, is 429; (3) any other HTTP-status error is 502
  with the body of the upstream response; (4) any other \<^verbatim>\<open>openai.APIError\<close> is 502 with its
  message; (5) an error whose message contains \<open>timeout\<close>, in any case of
  letters, is 504; (6) everything else is 500 with the text and the class name of the
  error. Typed signals are thus always checked before the message.
\<close>

theorem classifier_typed_first:
  "(\<exists>d. except_clauses (Raised e) = HTTPError (first_match rules_typed_first 500 e) d) \<and>
   (http_status_error e \<and> response_status_code e \<noteq> 401 \<and> response_status_code e \<noteq> 429 \<longrightarrow>
      except_clauses (Raised e) =
        HTTPError 502 (str_of ''Claude '' @ service_error @ response_text e)) \<and>
   (sdk_api_error e \<and> \<not> sdk_authentication e \<and> \<not> sdk_rate_limit e \<longrightarrow>
      except_clauses (Raised e) =
        HTTPError 502 (str_of ''OpenAI '' @ service_error @ api_message e)) \<and>
   (\<not> typed e \<and> \<not> auth_marked (str e) \<and> \<not> rate_marked (str e) \<and> timeout_marked (str e) \<longrightarrow>
      (\<exists>d. except_clauses (Raised e) = HTTPError 504 d)) \<and>
   (\<not> typed e \<and> \<not> auth_marked (str e) \<and> \<not> rate_marked (str e) \<and>
    \<not> timeout_marked (str e) \<longrightarrow>
      except_clauses (Raised e) =
        HTTPError 500 (generation_failed @ str e @ str_of '' ('' @ type_name e @ str_of '')''))"
proof (intro conjI impI)
  show "\<exists>d. except_clauses (Raised e) = HTTPError (first_match rules_typed_first 500 e) d"
  proof (cases "typed e")
    case True
    then show ?thesis
      by (cases e)
        (simp_all add: rules_typed_first_def typed_def sdk_api_error_def http_status_error_def
          sdk_authentication_def sdk_rate_limit_def http_status_def Let_def)
  next
    case False
    then have "first_match rules_typed_first 500 e =
        (if auth_marked (str e) then 401 else if rate_marked (str e) then 429
         else if timeout_marked (str e) then 504 else 500)"
      by (cases e)
        (simp_all add: rules_typed_first_def typed_def sdk_api_error_def http_status_error_def
          sdk_authentication_def sdk_rate_limit_def http_status_def)
    moreover from False have "except_clauses (Raised e) = by_message e"
      by (rule except_clauses_by_message)
    ultimately show ?thesis
      using by_message_status [of e] by (simp only:)
  qed
next
  assume "http_status_error e \<and> response_status_code e \<noteq> 401 \<and> response_status_code e \<noteq> 429"
  then show "except_clauses (Raised e) =
      HTTPError 502 (str_of ''Claude '' @ service_error @ response_text e)"
    by (cases e) (simp_all add: http_status_error_def Let_def)
next
  assume "sdk_api_error e \<and> \<not> sdk_authentication e \<and> \<not> sdk_rate_limit e"
  then show "except_clauses (Raised e) =
      HTTPError 502 (str_of ''OpenAI '' @ service_error @ api_message e)"
    by (cases e) (simp_all add: sdk_api_error_def sdk_authentication_def sdk_rate_limit_def)
next
  assume "\<not> typed e \<and> \<not> auth_marked (str e) \<and> \<not> rate_marked (str e) \<and> timeout_marked (str e)"
  then have "except_clauses (Raised e) = by_message e"
    and "by_message e = HTTPError 504 (timed_out @ type_name e @ str_of '')'')"
    by (blast intro: except_clauses_by_message by_message_504)+
  then show "\<exists>d. except_clauses (Raised e) = HTTPError 504 d"
    by (simp only:) blast
next
  assume "\<not> typed e \<and> \<not> auth_marked (str e) \<and> \<not> rate_marked (str e) \<and>
    \<not> timeout_marked (str e)"
  then show "except_clauses (Raised e) =
      HTTPError 500 (generation_failed @ str e @ str_of '' ('' @ type_name e @ str_of '')'')"
    using except_clauses_by_message [of e] by_message_500 [of e] by metis
qed

lemmas mark_eval =
  auth_marked_def rate_marked_def timeout_marked_def str_of_def lower_def lower_cp_def

lemma plain_timeout_marks:
  "\<not> typed plain_timeout_error \<and> \<not> auth_marked (str plain_timeout_error) \<and>
   \<not> rate_marked (str plain_timeout_error) \<and> timeout_marked (str plain_timeout_error)"
  by (simp add: plain_timeout_error_def typed_def sdk_api_error_def http_status_error_def mark_eval)

theorem classifier_typed_first_witness:
  "first_match rules_typed_first 500 plain_timeout_error = 504 \<and>
   (\<exists>d. except_clauses (Raised plain_timeout_error) = HTTPError 504 d)"
proof -
  have "first_match rules_typed_first 500 plain_timeout_error = 504"
    using plain_timeout_marks
    by (simp add: rules_typed_first_def sdk_authentication_def sdk_rate_limit_def
        http_status_def http_status_error_def sdk_api_error_def typed_def
        plain_timeout_error_def)
  with classifier_typed_first [of plain_timeout_error, THEN conjunct1] show ?thesis
    by simp
qed

theorem classifier_rules_as_specified_counterexample:
  "first_match rules_as_specified 500 upstream_rate_error = 429 \<and>
   except_clauses (Raised upstream_rate_error) =
     HTTPError 502 (str_of ''OpenAI '' @ service_error @
       str_of ''Error code: 500 - upstream rate limit exceeded'')"
  by (simp add: rules_as_specified_def upstream_rate_error_def sdk_authentication_def
      sdk_rate_limit_def http_status_def http_status_error_def mark_eval)

lemma auth_marked_append: "auth_marked b \<Longrightarrow> auth_marked (a @ b @ c)"
  unfolding auth_marked_def lower_append
  by (blast intro: py_in_append_left py_in_append_right)

lemma sdk_authentication_type_name:
  "sdk_authentication e \<Longrightarrow> auth_marked (type_name e)"
  by (cases e)
    (simp_all add: sdk_authentication_def auth_marked_def authentication_in_class_name)

lemma dispatch_gemini_raised:
  assumes "provider req = str_of ''gemini''"
    and "fst (dispatch g w req) = [GenAI_call c]"
    and "generate_content w c = Inl e"
  shows "snd (dispatch g w req) =
    Inl (Raised (OtherException (str_of ''Exception'')
      (gemini_failed @ str e @ str_of '' ('' @ type_name e @ str_of '')'')))"
proof -
  from assms(1) have d: "dispatch g w req = lift_exn (generate_with_gemini g w req)"
    by (simp add: dispatch_def str_of_provider_distinct [symmetric])
  with assms(2) have "fst (generate_with_gemini g w req) = [GenAI_call c]"
    by (simp add: lift_exn_def)
  with assms(3) have "snd (generate_with_gemini g w req) =
      Inl (OtherException (str_of ''Exception'')
        (gemini_failed @ str e @ str_of '' ('' @ type_name e @ str_of '')''))"
    by (simp add: generate_with_gemini_def Let_def)
  with d show ?thesis by (simp add: lift_exn_def)
qed

lemma except_clauses_401:
  "sdk_authentication e \<or> http_status e 401 \<or> (\<not> typed e \<and> auth_marked (str e)) \<Longrightarrow>
   \<exists>d. except_clauses (Raised e) = HTTPError 401 d"
  by (cases e)
    (auto simp: sdk_authentication_def http_status_def http_status_error_def typed_def
      sdk_api_error_def by_message_401)

lemma except_clauses_429:
  "sdk_rate_limit e \<or> http_status e 429 \<or>
     (\<not> typed e \<and> \<not> auth_marked (str e) \<and> rate_marked (str e)) \<Longrightarrow>
   \<exists>d. except_clauses (Raised e) = HTTPError 429 d"
  by (cases e)
    (auto simp: sdk_rate_limit_def http_status_def http_status_error_def typed_def
      sdk_api_error_def by_message_429)

text \<open>
  Claim C4 (amended). Whatever the provider, the endpoint answers 401 when the adapter
  raises \<^verbatim>\<open>openai.AuthenticationError\<close>, or an \<^verbatim>\<open>httpx.HTTPStatusError\<close> with status 401,
  or an error that is neither an \<^verbatim>\<open>openai.APIError\<close> nor an \<^verbatim>\<open>httpx.HTTPStatusError\<close>
  and whose message contains \<open>401\<close> or, in any case of letters, \<open>authentication\<close> or
  \<open>api key\<close>. Under \<open>gemini\<close>, where the adapter wraps every error of the call, the
  answer is 401 when the error of the call is an \<^verbatim>\<open>openai.AuthenticationError\<close> or its
  message contains one of these marks.
\<close>

theorem authentication_errors_answer_401:
  "(snd (dispatch g w req) = Inl (Raised e) \<and>
    (sdk_authentication e \<or> http_status e 401 \<or> (\<not> typed e \<and> auth_marked (str e))) \<longrightarrow>
      (\<exists>d. snd (generate_prompt g w req) = HTTPError 401 d)) \<and>
   (provider req = str_of ''gemini'' \<and> fst (dispatch g w req) = [GenAI_call c] \<and>
    generate_content w c = Inl e' \<and> (sdk_authentication e' \<or> auth_marked (str e')) \<longrightarrow>
      (\<exists>d. snd (generate_prompt g w req) = HTTPError 401 d))"
proof (intro conjI impI)
  assume a: "snd (dispatch g w req) = Inl (Raised e) \<and>
    (sdk_authentication e \<or> http_status e 401 \<or> (\<not> typed e \<and> auth_marked (str e)))"
  then have "snd (generate_prompt g w req) = except_clauses (Raised e)"
    by (simp add: generate_prompt_raised)
  with a except_clauses_401 [of e] show "\<exists>d. snd (generate_prompt g w req) = HTTPError 401 d"
    by simp
next
  assume a: "provider req = str_of ''gemini'' \<and> fst (dispatch g w req) = [GenAI_call c] \<and>
    generate_content w c = Inl e' \<and> (sdk_authentication e' \<or> auth_marked (str e'))"
  define x where "x = OtherException (str_of ''Exception'')
      (gemini_failed @ str e' @ str_of '' ('' @ type_name e' @ str_of '')'')"
  from a have r: "snd (dispatch g w req) = Inl (Raised x)"
    unfolding x_def by (blast intro: dispatch_gemini_raised)
  from a have "auth_marked (str e') \<or> auth_marked (type_name e')"
    by (blast intro: sdk_authentication_type_name)
  then have "auth_marked (str x)"
  proof
    assume "auth_marked (str e')"
    then show ?thesis
      unfolding x_def str.simps by (rule auth_marked_append)
  next
    assume "auth_marked (type_name e')"
    then have "auth_marked ((gemini_failed @ str e' @ str_of '' ('') @ type_name e' @ str_of '')'')"
      by (rule auth_marked_append)
    then show ?thesis
      unfolding x_def str.simps by simp
  qed
  moreover have "\<not> typed x"
    by (simp add: x_def typed_def sdk_api_error_def http_status_error_def)
  ultimately have "\<exists>d. except_clauses (Raised x) = HTTPError 401 d"
    by (blast intro: except_clauses_401)
  with r show "\<exists>d. snd (generate_prompt g w req) = HTTPError 401 d"
    by (simp add: generate_prompt_raised)
qed

lemma dispatch_raising_openai:
  "snd (dispatch module_load (world_raising e) python_expert) = Inl (Raised e)"
  by (simp add: dispatch_def lift_exn_def generate_with_openai_def world_raising_def
      world_T_def python_expert_def Let_def)

theorem authentication_errors_answer_401_witness:
  "snd (dispatch module_load (world_raising bad_key_error) python_expert) =
     Inl (Raised bad_key_error) \<and>
   sdk_authentication bad_key_error \<and>
   (\<exists>d. snd (generate_prompt module_load (world_raising bad_key_error) python_expert) =
      HTTPError 401 d) \<and>
   (\<exists>d. snd (generate_prompt module_load (world_raising bad_key_error)
            (python_expert\<lparr>provider := str_of ''gemini''\<rparr>)) = HTTPError 401 d)"
proof -
  have s: "sdk_authentication bad_key_error"
    by (simp add: sdk_authentication_def bad_key_error_def)
  have p: "provider (python_expert\<lparr>provider := str_of ''gemini''\<rparr>) = str_of ''gemini''"
    by simp
  have "\<exists>c. fst (dispatch module_load (world_raising bad_key_error)
      (python_expert\<lparr>provider := str_of ''gemini''\<rparr>)) = [GenAI_call c]"
    by (simp add: fst_dispatch_gemini generate_with_gemini_def Let_def)
  then obtain c where c: "fst (dispatch module_load (world_raising bad_key_error)
      (python_expert\<lparr>provider := str_of ''gemini''\<rparr>)) = [GenAI_call c]" ..
  have r: "generate_content (world_raising bad_key_error) c = Inl bad_key_error"
    by (simp add: world_raising_def)
  note one = authentication_errors_answer_401
      [of module_load "world_raising bad_key_error" python_expert bad_key_error,
       THEN conjunct1, rule_format]
  note two = authentication_errors_answer_401
      [of module_load "world_raising bad_key_error"
        "python_expert\<lparr>provider := str_of ''gemini''\<rparr>" _ c bad_key_error,
       THEN conjunct2, rule_format]
  from s dispatch_raising_openai [of bad_key_error] one two p c r show ?thesis
    by blast
qed

theorem authentication_errors_counterexample:
  "snd (dispatch module_load (world_raising upstream_401_error) python_expert) =
     Inl (Raised upstream_401_error) \<and>
   py_in (str_of ''401'') (str upstream_401_error) \<and>
   snd (generate_prompt module_load (world_raising upstream_401_error) python_expert) =
     HTTPError 502 (str_of ''OpenAI '' @ service_error @
       str_of ''Error code: 500 - upstream returned 401'')"
proof -
  have "py_in (str_of ''401'') (str upstream_401_error)"
    by (simp add: upstream_401_error_def str_of_def)
  moreover have "except_clauses (Raised upstream_401_error) =
      HTTPError 502 (str_of ''OpenAI '' @ service_error @
        str_of ''Error code: 500 - upstream returned 401'')"
    by (simp add: upstream_401_error_def)
  ultimately show ?thesis
    using dispatch_raising_openai [of upstream_401_error]
    by (simp add: generate_prompt_raised)
qed

text \<open>
  Claim C5 (amended). The endpoint answers 429 when the adapter raises
  \<^verbatim>\<open>openai.RateLimitError\<close>, or an \<^verbatim>\<open>httpx.HTTPStatusError\<close> with status 429, or an error
  that is neither an \<^verbatim>\<open>openai.APIError\<close> nor an \<^verbatim>\<open>httpx.HTTPStatusError\<close>, whose
  message carries no mark of authentication (\<open>401\<close>, or in any case of letters
  \<open>authentication\<close> or \<open>api key\<close>) and contains \<open>429\<close> or, in any case of letters,
  \<open>rate\<close> or \<open>quota\<close>.
\<close>

theorem rate_limit_errors_answer_429:
  "snd (dispatch g w req) = Inl (Raised e) \<and>
   (sdk_rate_limit e \<or> http_status e 429 \<or>
    (\<not> typed e \<and> \<not> auth_marked (str e) \<and> rate_marked (str e))) \<longrightarrow>
     (\<exists>d. snd (generate_prompt g w req) = HTTPError 429 d)"
proof
  assume a: "snd (dispatch g w req) = Inl (Raised e) \<and>
   (sdk_rate_limit e \<or> http_status e 429 \<or>
    (\<not> typed e \<and> \<not> auth_marked (str e) \<and> rate_marked (str e)))"
  then have "snd (generate_prompt g w req) = except_clauses (Raised e)"
    by (simp add: generate_prompt_raised)
  with a except_clauses_429 [of e] show "\<exists>d. snd (generate_prompt g w req) = HTTPError 429 d"
    by simp
qed

theorem rate_limit_errors_answer_429_witness:
  "snd (dispatch module_load (world_raising slow_down_error) python_expert) =
     Inl (Raised slow_down_error) \<and>
   sdk_rate_limit slow_down_error \<and>
   (\<exists>d. snd (generate_prompt module_load (world_raising slow_down_error) python_expert) =
      HTTPError 429 d)"
proof -
  have s: "sdk_rate_limit slow_down_error"
    by (simp add: sdk_rate_limit_def slow_down_error_def)
  with dispatch_raising_openai [of slow_down_error]
    rate_limit_errors_answer_429
      [of module_load "world_raising slow_down_error" python_expert slow_down_error]
  show ?thesis by simp
qed

theorem rate_limit_errors_counterexample:
  "snd (dispatch module_load (world_raising upstream_rate_error) python_expert) =
     Inl (Raised upstream_rate_error) \<and>
   py_in (str_of ''rate'') (lower (str upstream_rate_error)) \<and>
   snd (generate_prompt module_load (world_raising upstream_rate_error) python_expert) =
     HTTPError 502 (str_of ''OpenAI '' @ service_error @
       str_of ''Error code: 500 - upstream rate limit exceeded'') \<and>
   snd (dispatch module_load (world_raising key_quota_error) python_expert) =
     Inl (Raised key_quota_error) \<and>
   py_in (str_of ''quota'') (lower (str key_quota_error)) \<and>
   snd (generate_prompt module_load (world_raising key_quota_error) python_expert) =
     HTTPError 401 (key_invalid_or_expired @ str_of ''RuntimeError'' @ str_of '')'')"
proof -
  have "py_in (str_of ''rate'') (lower (str upstream_rate_error))"
    by (simp add: upstream_rate_error_def mark_eval)
  moreover have "except_clauses (Raised upstream_rate_error) =
      HTTPError 502 (str_of ''OpenAI '' @ service_error @
        str_of ''Error code: 500 - upstream rate limit exceeded'')"
    by (simp add: upstream_rate_error_def)
  moreover have "py_in (str_of ''quota'') (lower (str key_quota_error))"
    by (simp add: key_quota_error_def mark_eval)
  moreover have "auth_marked (str key_quota_error)"
    by (simp add: key_quota_error_def mark_eval)
  then have "except_clauses (Raised key_quota_error) =
      HTTPError 401 (key_invalid_or_expired @ str_of ''RuntimeError'' @ str_of '')'')"
    by (simp add: by_message_401 key_quota_error_def)
  ultimately show ?thesis
    using dispatch_raising_openai [of upstream_rate_error]
      dispatch_raising_openai [of key_quota_error]
    by (simp add: generate_prompt_raised)
qed

section \<open>The OpenAI-style adapter\<close>

lemma str_or_supplied: "u \<noteq> [] \<Longrightarrow> str_or (Some u) d = u"
  by (simp add: str_or_def)

lemma str_or_absent: "x = None \<or> x = Some [] \<Longrightarrow> str_or x d = d"
  by (auto simp: str_or_def)

lemma str_or_empty: "str_or x [] = (case x of None \<Rightarrow> [] | Some t \<Rightarrow> t)"
  by (simp add: str_or_def split: option.splits)

text \<open>
  Claim C7 (amended). For every request with provider \<open>openai\<close> the handler makes one
  chat-completion call with exactly two messages, a system turn carrying the template
  and a user turn carrying the wrapper text followed by \<open>role_input\<close>, with the
  request's model and key and with temperature 0.7. The call is directed at
  \<open>base_url\<close> when it is supplied and not empty, and at
  \<open>https://api.openai.com/v1\<close> when it is absent or empty. When the completion has a
  first choice, the adapter returns its message text, or the empty text if that text
  is absent.
\<close>

theorem openai_adapter_call:
  assumes "provider req = str_of ''openai''"
  shows "\<exists>call. fst (generate_prompt g w req) = [OpenAI_call call] \<and>
     create_messages call =
       [(str_of ''system'', SYSTEM_PROMPT g), (str_of ''user'', role_wrapper @ role_input req)] \<and>
     create_temperature call = 7 / 10 \<and>
     create_model call = model req \<and>
     client_api_key call = api_key req \<and>
     (\<forall>u. base_url req = Some u \<and> u \<noteq> [] \<longrightarrow> client_base_url call = u) \<and>
     (base_url req = None \<or> base_url req = Some [] \<longrightarrow>
        client_base_url call = str_of ''https://api.openai.com/v1'') \<and>
     (\<forall>content rest. chat_completions_create w call = Inr (content # rest) \<longrightarrow>
        snd (generate_with_openai g w req) =
          Inr (PyStr (case content of None \<Rightarrow> [] | Some t \<Rightarrow> t)))"
proof -
  define call where "call =
    \<lparr>client_api_key = api_key req,
     client_base_url = str_or (base_url req) (str_of ''https://api.openai.com/v1''),
     create_model = model req,
     create_messages =
       [(str_of ''system'', SYSTEM_PROMPT g), (str_of ''user'', wrapped_role req)],
     create_temperature = 7 / 10\<rparr>"
  have calls: "fst (generate_prompt g w req) = [OpenAI_call call]"
    using assms
    by (simp add: fst_generate_prompt fst_dispatch_openai generate_with_openai_def call_def Let_def)
  have res: "snd (generate_with_openai g w req) =
      (case chat_completions_create w call of
         Inl e \<Rightarrow> Inl e
       | Inr choices \<Rightarrow>
           (case choices of
              [] \<Rightarrow> Inl (raise_fault w IndexError (PyList []))
            | content # rest \<Rightarrow> Inr (PyStr (str_or content []))))"
    by (simp add: generate_with_openai_def call_def Let_def)
  have "create_messages call =
      [(str_of ''system'', SYSTEM_PROMPT g), (str_of ''user'', role_wrapper @ role_input req)]"
    by (simp add: call_def wrapped_role_def)
  moreover have "create_temperature call = 7 / 10" "create_model call = model req"
    "client_api_key call = api_key req"
    by (simp_all add: call_def)
  moreover have "\<forall>u. base_url req = Some u \<and> u \<noteq> [] \<longrightarrow> client_base_url call = u"
    by (simp add: call_def str_or_supplied)
  moreover have "base_url req = None \<or> base_url req = Some [] \<longrightarrow>
      client_base_url call = str_of ''https://api.openai.com/v1''"
    by (auto simp: call_def str_or_absent)
  moreover have "\<forall>content rest. chat_completions_create w call = Inr (content # rest) \<longrightarrow>
      snd (generate_with_openai g w req) =
        Inr (PyStr (case content of None \<Rightarrow> [] | Some t \<Rightarrow> t))"
    by (simp add: res str_or_empty)
  ultimately show ?thesis
    using calls by blast
qed

theorem openai_adapter_call_witness:
  "map adapter_of (fst (generate_prompt module_load world_T python_expert)) = [OpenAI_adapter] \<and>
   openai_base_urls (fst (generate_prompt module_load world_T python_expert)) =
     [str_of ''https://api.openai.com/v1''] \<and>
   openai_base_urls (fst (generate_prompt module_load world_T
      (python_expert\<lparr>base_url := Some (str_of ''https://proxy.example/v1'')\<rparr>))) =
     [str_of ''https://proxy.example/v1''] \<and>
   snd (generate_with_openai module_load world_T python_expert) = Inr (PyStr (str_of ''T'')) \<and>
   snd (generate_with_openai module_load world_no_text python_expert) = Inr (PyStr [])"
proof -
  have p: "provider python_expert = str_of ''openai''"
    by (simp add: python_expert_def)
  have q: "provider (python_expert\<lparr>base_url := Some (str_of ''https://proxy.example/v1'')\<rparr>) =
      str_of ''openai''"
    by (simp add: python_expert_def)
  from openai_adapter_call [OF p, of module_load world_T]
  obtain c1 where c1: "fst (generate_prompt module_load world_T python_expert) = [OpenAI_call c1]"
    and b1: "base_url python_expert = None \<or> base_url python_expert = Some [] \<longrightarrow>
        client_base_url c1 = str_of ''https://api.openai.com/v1''"
    and r1: "\<forall>content rest. chat_completions_create world_T c1 = Inr (content # rest) \<longrightarrow>
        snd (generate_with_openai module_load world_T python_expert) =
          Inr (PyStr (case content of None \<Rightarrow> [] | Some t \<Rightarrow> t))"
    by blast
  from openai_adapter_call [OF q, of module_load world_T]
  obtain c2 where c2: "fst (generate_prompt module_load world_T
        (python_expert\<lparr>base_url := Some (str_of ''https://proxy.example/v1'')\<rparr>)) =
        [OpenAI_call c2]"
    and b2: "\<forall>u. base_url (python_expert\<lparr>base_url := Some (str_of ''https://proxy.example/v1'')\<rparr>)
        = Some u \<and> u \<noteq> [] \<longrightarrow> client_base_url c2 = u"
    by blast
  from openai_adapter_call [OF p, of module_load world_no_text]
  obtain c3 where r3: "\<forall>content rest.
        chat_completions_create world_no_text c3 = Inr (content # rest) \<longrightarrow>
        snd (generate_with_openai module_load world_no_text python_expert) =
          Inr (PyStr (case content of None \<Rightarrow> [] | Some t \<Rightarrow> t))"
    by blast
  have "client_base_url c1 = str_of ''https://api.openai.com/v1''"
    using b1 by (simp add: python_expert_def)
  moreover have "client_base_url c2 = str_of ''https://proxy.example/v1''"
    using b2 by (simp add: str_of_def)
  moreover have "snd (generate_with_openai module_load world_T python_expert) =
      Inr (PyStr (str_of ''T''))"
    using r1 by (simp add: world_T_def)
  moreover have "snd (generate_with_openai module_load world_no_text python_expert) =
      Inr (PyStr [])"
    using r3 by (simp add: world_no_text_def world_T_def)
  ultimately show ?thesis
    using c1 c2 by simp
qed

theorem openai_base_url_counterexample:
  "base_url (python_expert\<lparr>base_url := Some []\<rparr>) = Some [] \<and>
   openai_base_urls (fst (generate_prompt module_load world_T
      (python_expert\<lparr>base_url := Some []\<rparr>))) = [str_of ''https://api.openai.com/v1''] \<and>
   str_of ''https://api.openai.com/v1'' \<noteq> []"
  by (simp add: fst_generate_prompt dispatch_def lift_exn_def generate_with_openai_def
      python_expert_def str_or_def str_of_def Let_def)

section \<open>The Anthropic-style adapter\<close>

lemma content_text_absent:
  "map_of kvs (str_of ''content'') = None \<or> map_of kvs (str_of ''content'') = Some (PyList []) \<Longrightarrow>
   content_text w (PyDict kvs) = Inr (PyStr [])"
  by (auto simp: content_text_def)

lemma content_text_first_block:
  "map_of kvs (str_of ''content'') = Some (PyList (PyDict block # blocks)) \<Longrightarrow>
   map_of block (str_of ''text'') = Some t \<Longrightarrow>
   content_text w (PyDict kvs) = Inr t"
  by (simp add: content_text_def)

lemma header_names_distinct:
  "str_of ''anthropic-version'' \<noteq> str_of ''x-api-key''"
  by (simp add: str_of_def)

text \<open>
  Claim C8 (amended). For every request with provider \<open>claude\<close> the handler makes one
  HTTP POST. Its URL is \<open>base_url\<close> without its trailing slashes followed by
  \<open>/v1/messages\<close> when \<open>base_url\<close> is supplied and not empty, and
  \<open>https://api.anthropic.com/v1/messages\<close> when it is absent or empty. Its headers
  carry the API key and the fixed protocol version; its JSON body has the request's
  model, \<open>max_tokens\<close> 4096, the template as \<open>system\<close> and a single user message with
  the wrapped \<open>role_input\<close>; the timeout of the call is 120 seconds. If the status of
  the response is not a success the adapter fails with an error that bears the status
  and the body. Otherwise, for a response that is a JSON object, it returns the empty
  text if the content list is absent or empty, and the text of the first content block
  if the list starts with an object that has one.
\<close>

theorem claude_adapter_call:
  assumes "provider req = str_of ''claude''"
  shows "\<exists>call. fst (generate_prompt g w req) = [HTTP_call call] \<and>
     (\<forall>u. base_url req = Some u \<and> u \<noteq> [] \<longrightarrow>
        post_url call = rstrip (str_of ''/'') u @ str_of ''/v1/messages'') \<and>
     (base_url req = None \<or> base_url req = Some [] \<longrightarrow>
        post_url call = str_of ''https://api.anthropic.com'' @ str_of ''/v1/messages'') \<and>
     map_of (post_headers call) (str_of ''x-api-key'') = Some (api_key req) \<and>
     map_of (post_headers call) (str_of ''anthropic-version'') = Some (str_of ''2023-06-01'') \<and>
     post_json call =
       PyDict
         [(str_of ''model'', PyStr (model req)),
          (str_of ''max_tokens'', PyNum 4096),
          (str_of ''system'', PyStr (SYSTEM_PROMPT g)),
          (str_of ''messages'',
             PyList [PyDict [(str_of ''role'', PyStr (str_of ''user'')),
                             (str_of ''content'', PyStr (role_wrapper @ role_input req))]])] \<and>
     client_timeout call = 120 \<and>
     (\<forall>r. httpx_post w call = Inr r \<and> \<not> is_success r \<longrightarrow>
        (\<exists>m. snd (generate_with_claude g w req) =
           Inl (HTTPStatusError m (status_code r) (body_text r)))) \<and>
     (\<forall>r kvs. httpx_post w call = Inr r \<and> is_success r \<and> body_json r = Some (PyDict kvs) \<and>
        (map_of kvs (str_of ''content'') = None \<or>
         map_of kvs (str_of ''content'') = Some (PyList [])) \<longrightarrow>
        snd (generate_with_claude g w req) = Inr (PyStr [])) \<and>
     (\<forall>r kvs block blocks t.
        httpx_post w call = Inr r \<and> is_success r \<and> body_json r = Some (PyDict kvs) \<and>
        map_of kvs (str_of ''content'') = Some (PyList (PyDict block # blocks)) \<and>
        map_of block (str_of ''text'') = Some t \<longrightarrow>
        snd (generate_with_claude g w req) = Inr t)"
proof -
  define base where "base =
    (case base_url req of
       None \<Rightarrow> str_of ''https://api.anthropic.com''
     | Some u \<Rightarrow>
         if u \<noteq> [] then rstrip (str_of ''/'') u else str_of ''https://api.anthropic.com'')"
  define call where "call =
    \<lparr>post_url = base @ str_of ''/v1/messages'',
     post_headers =
       [(str_of ''x-api-key'', api_key req),
        (str_of ''anthropic-version'', str_of ''2023-06-01''),
        (str_of ''content-type'', str_of ''application/json; charset=utf-8'')],
     post_json =
       PyDict
         [(str_of ''model'', PyStr (model req)),
          (str_of ''max_tokens'', PyNum 4096),
          (str_of ''system'', PyStr (SYSTEM_PROMPT g)),
          (str_of ''messages'',
             PyList [PyDict [(str_of ''role'', PyStr (str_of ''user'')),
                             (str_of ''content'', PyStr (wrapped_role req))]])],
     client_timeout = 120\<rparr>"
  have calls: "fst (generate_prompt g w req) = [HTTP_call call]"
    using assms
    by (simp add: fst_generate_prompt fst_dispatch_claude generate_with_claude_def call_def
        base_def Let_def)
  have res: "snd (generate_with_claude g w req) =
      (case httpx_post w call of
         Inl e \<Rightarrow> Inl e
       | Inr response \<Rightarrow>
           if \<not> is_success response then
             Inl (HTTPStatusError (status_error_str w call response)
                    (status_code response) (body_text response))
           else
             (case body_json response of
                None \<Rightarrow> Inl (raise_fault w JSONDecodeError (PyStr (body_text response)))
              | Some data \<Rightarrow> content_text w data))"
    unfolding generate_with_claude_def call_def base_def Let_def by simp
  have "\<forall>u. base_url req = Some u \<and> u \<noteq> [] \<longrightarrow>
      post_url call = rstrip (str_of ''/'') u @ str_of ''/v1/messages''"
    by (simp add: call_def base_def)
  moreover have "base_url req = None \<or> base_url req = Some [] \<longrightarrow>
      post_url call = str_of ''https://api.anthropic.com'' @ str_of ''/v1/messages''"
    by (auto simp: call_def base_def)
  moreover have "map_of (post_headers call) (str_of ''x-api-key'') = Some (api_key req)"
    by (simp add: call_def)
  moreover have "map_of (post_headers call) (str_of ''anthropic-version'') =
      Some (str_of ''2023-06-01'')"
    by (simp add: call_def header_names_distinct)
  moreover have "post_json call =
      PyDict
        [(str_of ''model'', PyStr (model req)),
         (str_of ''max_tokens'', PyNum 4096),
         (str_of ''system'', PyStr (SYSTEM_PROMPT g)),
         (str_of ''messages'',
            PyList [PyDict [(str_of ''role'', PyStr (str_of ''user'')),
                            (str_of ''content'', PyStr (role_wrapper @ role_input req))]])]"
    by (simp add: call_def wrapped_role_def)
  moreover have "client_timeout call = 120"
    by (simp add: call_def)
  moreover have "\<forall>r. httpx_post w call = Inr r \<and> \<not> is_success r \<longrightarrow>
      (\<exists>m. snd (generate_with_claude g w req) =
         Inl (HTTPStatusError m (status_code r) (body_text r)))"
    by (simp add: res)
  moreover have "\<forall>r kvs. httpx_post w call = Inr r \<and> is_success r \<and>
      body_json r = Some (PyDict kvs) \<and>
      (map_of kvs (str_of ''content'') = None \<or>
       map_of kvs (str_of ''content'') = Some (PyList [])) \<longrightarrow>
      snd (generate_with_claude g w req) = Inr (PyStr [])"
    by (auto simp: res content_text_absent)
  moreover have "\<forall>r kvs block blocks t.
      httpx_post w call = Inr r \<and> is_success r \<and> body_json r = Some (PyDict kvs) \<and>
      map_of kvs (str_of ''content'') = Some (PyList (PyDict block # blocks)) \<and>
      map_of block (str_of ''text'') = Some t \<longrightarrow>
      snd (generate_with_claude g w req) = Inr t"
    by (auto simp: res content_text_first_block)
  ultimately show ?thesis
    using calls by blast
qed

lemma provider_claude_expert: "provider claude_expert = str_of ''claude''"
  by (simp add: claude_expert_def)

lemma rstrip_x_slash: "rstrip (str_of ''/'') (str_of ''https://x/'') = str_of ''https://x''"
  by (simp add: rstrip_def str_of_def)

theorem claude_adapter_call_witness:
  "request_urls (fst (generate_prompt module_load world_T
      (claude_expert\<lparr>base_url := Some (str_of ''https://x/'')\<rparr>))) =
     [str_of ''https://x'' @ str_of ''/v1/messages''] \<and>
   request_urls (fst (generate_prompt module_load world_T claude_expert)) =
     [str_of ''https://api.anthropic.com'' @ str_of ''/v1/messages''] \<and>
   snd (generate_with_claude module_load world_T claude_expert) = Inr (PyStr (str_of ''T'')) \<and>
   (\<exists>m. snd (generate_with_claude module_load (world_answering overloaded_response)
            claude_expert) = Inl (HTTPStatusError m 529 (str_of ''overloaded'')))"
proof -
  have q: "provider (claude_expert\<lparr>base_url := Some (str_of ''https://x/'')\<rparr>) =
      str_of ''claude''"
    by (simp add: claude_expert_def)
  from claude_adapter_call [OF q, of module_load world_T]
  obtain c1 where c1: "fst (generate_prompt module_load world_T
        (claude_expert\<lparr>base_url := Some (str_of ''https://x/'')\<rparr>)) = [HTTP_call c1]"
    and u1: "\<forall>u. base_url (claude_expert\<lparr>base_url := Some (str_of ''https://x/'')\<rparr>) = Some u \<and>
        u \<noteq> [] \<longrightarrow> post_url c1 = rstrip (str_of ''/'') u @ str_of ''/v1/messages''"
    by blast
  from claude_adapter_call [OF provider_claude_expert, of module_load world_T]
  obtain c2 where c2: "fst (generate_prompt module_load world_T claude_expert) = [HTTP_call c2]"
    and u2: "base_url claude_expert = None \<or> base_url claude_expert = Some [] \<longrightarrow>
        post_url c2 = str_of ''https://api.anthropic.com'' @ str_of ''/v1/messages''"
    and t2: "\<forall>r kvs block blocks t.
        httpx_post world_T c2 = Inr r \<and> is_success r \<and> body_json r = Some (PyDict kvs) \<and>
        map_of kvs (str_of ''content'') = Some (PyList (PyDict block # blocks)) \<and>
        map_of block (str_of ''text'') = Some t \<longrightarrow>
        snd (generate_with_claude module_load world_T claude_expert) = Inr t"
    by blast
  from claude_adapter_call [OF provider_claude_expert, of module_load
      "world_answering overloaded_response"]
  obtain c3 where e3: "\<forall>r. httpx_post (world_answering overloaded_response) c3 = Inr r \<and>
        \<not> is_success r \<longrightarrow>
        (\<exists>m. snd (generate_with_claude module_load (world_answering overloaded_response)
           claude_expert) = Inl (HTTPStatusError m (status_code r) (body_text r)))"
    by blast
  have "post_url c1 = str_of ''https://x'' @ str_of ''/v1/messages''"
  proof -
    have "str_of ''https://x/'' \<noteq> []" by (simp add: str_of_def)
    with u1 show ?thesis by (simp add: rstrip_x_slash)
  qed
  moreover have "post_url c2 = str_of ''https://api.anthropic.com'' @ str_of ''/v1/messages''"
    using u2 by (simp add: claude_expert_def python_expert_def)
  moreover have "snd (generate_with_claude module_load world_T claude_expert) =
      Inr (PyStr (str_of ''T''))"
  proof -
    have "httpx_post world_T c2 = Inr \<lparr>status_code = 200, body_text = str_of ''{...}'',
        body_json =
          Some (PyDict [(str_of ''content'',
            PyList [PyDict [(str_of ''type'', PyStr (str_of ''text'')),
                            (str_of ''text'', PyStr (str_of ''T''))]])])\<rparr>"
      by (simp add: world_T_def)
    moreover have "map_of [(str_of ''type'', PyStr (str_of ''text'')),
        (str_of ''text'', PyStr (str_of ''T''))] (str_of ''text'') = Some (PyStr (str_of ''T''))"
      by (simp add: str_of_def)
    ultimately show ?thesis
      using t2 by (simp add: is_success_def)
  qed
  moreover have "\<exists>m. snd (generate_with_claude module_load (world_answering overloaded_response)
      claude_expert) = Inl (HTTPStatusError m 529 (str_of ''overloaded''))"
  proof -
    have "httpx_post (world_answering overloaded_response) c3 = Inr overloaded_response"
      by (simp add: world_answering_def)
    moreover have "\<not> is_success overloaded_response"
      by (simp add: is_success_def overloaded_response_def)
    ultimately show ?thesis
      using e3 by (fastforce simp: overloaded_response_def)
  qed
  ultimately show ?thesis
    using c1 c2 by simp
qed

theorem claude_url_counterexample:
  "base_url (claude_expert\<lparr>base_url := Some (str_of ''https://x/'')\<rparr>) =
     Some (str_of ''https://x/'') \<and>
   request_urls (fst (generate_prompt module_load world_T
      (claude_expert\<lparr>base_url := Some (str_of ''https://x/'')\<rparr>))) =
     [str_of ''https://x/v1/messages''] \<and>
   str_of ''https://x/'' @ str_of ''/v1/messages'' \<noteq> str_of ''https://x/v1/messages''"
  by (simp add: fst_generate_prompt fst_dispatch_claude generate_with_claude_def
      claude_expert_def rstrip_def str_of_def Let_def)

lemma slash: "str_of ''/'' = [47]"
  by (simp add: str_of_def)

lemma rstrip_slashes:
  "\<exists>k. u = rstrip (str_of ''/'') u @ replicate k 47"
proof -
  obtain t where t: "u = rstrip (str_of ''/'') u @ t" and s: "set t \<subseteq> set (str_of ''/'')"
    using rstrip_decompose by blast
  from s have "\<forall>c \<in> set t. c = 47"
    by (auto simp: slash)
  then have "replicate (length t) 47 = t"
    by (rule replicate_length_same)
  with t show ?thesis by metis
qed

lemma claude_request_urls:
  "provider req = str_of ''claude'' \<Longrightarrow>
   request_urls (fst (generate_prompt g w req)) =
     [(case base_url req of
         None \<Rightarrow> str_of ''https://api.anthropic.com''
       | Some u \<Rightarrow>
           if u \<noteq> [] then rstrip (str_of ''/'') u else str_of ''https://api.anthropic.com'') @
      str_of ''/v1/messages'']"
  by (simp add: fst_generate_prompt fst_dispatch_claude generate_with_claude_def Let_def)

lemma default_messages_url:
  "str_of ''https://api.anthropic.com'' @ str_of ''/v1/messages'' =
   str_of ''https://api.anthropic.com/v1/messages''"
  by (simp add: str_of_def)

text \<open>
  Claim C10 (amended). For every request with provider \<open>claude\<close> whose \<open>base_url\<close> is
  supplied and not empty, the URL of the request is \<open>base_url\<close> with all its trailing
  slashes removed, followed by \<open>/v1/messages\<close>; so two values of \<open>base_url\<close> that are
  not empty and differ only in trailing slashes give the same URL. When \<open>base_url\<close> is
  absent or empty the URL is exactly \<open>https://api.anthropic.com/v1/messages\<close>.
\<close>

theorem claude_url_trailing_slashes:
  assumes "provider req = str_of ''claude''"
  shows "(\<forall>u. base_url req = Some u \<and> u \<noteq> [] \<longrightarrow>
            (\<exists>k. u = rstrip (str_of ''/'') u @ replicate k 47) \<and>
            (rstrip (str_of ''/'') u = [] \<or> last (rstrip (str_of ''/'') u) \<noteq> 47) \<and>
            request_urls (fst (generate_prompt g w req)) =
              [rstrip (str_of ''/'') u @ str_of ''/v1/messages'']) \<and>
         (\<forall>b n m. b @ replicate n 47 \<noteq> [] \<and> b @ replicate m 47 \<noteq> [] \<longrightarrow>
            request_urls (fst (generate_prompt g w (req\<lparr>base_url := Some (b @ replicate n 47)\<rparr>))) =
            request_urls (fst (generate_prompt g w (req\<lparr>base_url := Some (b @ replicate m 47)\<rparr>)))) \<and>
         (base_url req = None \<or> base_url req = Some [] \<longrightarrow>
            request_urls (fst (generate_prompt g w req)) =
              [str_of ''https://api.anthropic.com/v1/messages''])"
proof (intro conjI allI impI)
  fix u
  assume a: "base_url req = Some u \<and> u \<noteq> []"
  show "\<exists>k. u = rstrip (str_of ''/'') u @ replicate k 47"
    by (rule rstrip_slashes)
  show "rstrip (str_of ''/'') u = [] \<or> last (rstrip (str_of ''/'') u) \<noteq> 47"
    using rstrip_last [of "str_of ''/''" u] by (auto simp: slash)
  from a assms show "request_urls (fst (generate_prompt g w req)) =
      [rstrip (str_of ''/'') u @ str_of ''/v1/messages'']"
    by (simp add: claude_request_urls)
next
  fix b :: pystr and n m :: nat
  assume a: "b @ replicate n 47 \<noteq> [] \<and> b @ replicate m 47 \<noteq> []"
  have r: "rstrip (str_of ''/'') (b @ replicate k 47) = rstrip (str_of ''/'') b" for k :: nat
    by (rule rstrip_replicate) (simp add: slash)
  have p: "provider (req\<lparr>base_url := Some x\<rparr>) = str_of ''claude''" for x
    using assms by simp
  from a show "request_urls (fst (generate_prompt g w (req\<lparr>base_url := Some (b @ replicate n 47)\<rparr>))) =
      request_urls (fst (generate_prompt g w (req\<lparr>base_url := Some (b @ replicate m 47)\<rparr>)))"
    by (simp add: claude_request_urls [OF p] r)
next
  assume "base_url req = None \<or> base_url req = Some []"
  with assms show "request_urls (fst (generate_prompt g w req)) =
      [str_of ''https://api.anthropic.com/v1/messages'']"
    by (auto simp: claude_request_urls default_messages_url)
qed

theorem claude_url_trailing_slashes_witness:
  "request_urls (fst (generate_prompt module_load world_T
      (claude_expert\<lparr>base_url := Some (str_of ''https://x'')\<rparr>))) =
   request_urls (fst (generate_prompt module_load world_T
      (claude_expert\<lparr>base_url := Some (str_of ''https://x/'')\<rparr>))) \<and>
   request_urls (fst (generate_prompt module_load world_T claude_expert)) =
     [str_of ''https://api.anthropic.com/v1/messages'']"
proof -
  note t = claude_url_trailing_slashes [OF provider_claude_expert, of module_load world_T]
  have x: "str_of ''https://x'' @ replicate 0 47 = str_of ''https://x''"
    "str_of ''https://x'' @ replicate 1 47 = str_of ''https://x/''"
    by (simp_all add: str_of_def)
  have ne: "str_of ''https://x'' @ replicate 0 47 \<noteq> [] \<and> str_of ''https://x'' @ replicate 1 47 \<noteq> []"
    by (simp add: str_of_def)
  from t have "\<forall>b n m. b @ replicate n 47 \<noteq> [] \<and> b @ replicate m 47 \<noteq> [] \<longrightarrow>
      request_urls (fst (generate_prompt module_load world_T
        (claude_expert\<lparr>base_url := Some (b @ replicate n 47)\<rparr>))) =
      request_urls (fst (generate_prompt module_load world_T
        (claude_expert\<lparr>base_url := Some (b @ replicate m 47)\<rparr>)))"
    by blast
  with ne have "request_urls (fst (generate_prompt module_load world_T
        (claude_expert\<lparr>base_url := Some (str_of ''https://x'' @ replicate 0 47)\<rparr>))) =
      request_urls (fst (generate_prompt module_load world_T
        (claude_expert\<lparr>base_url := Some (str_of ''https://x'' @ replicate 1 47)\<rparr>)))"
    by blast
  then have "request_urls (fst (generate_prompt module_load world_T
        (claude_expert\<lparr>base_url := Some (str_of ''https://x'')\<rparr>))) =
      request_urls (fst (generate_prompt module_load world_T
        (claude_expert\<lparr>base_url := Some (str_of ''https://x/'')\<rparr>)))"
    by (simp only: x)
  moreover from t have "base_url claude_expert = None \<or> base_url claude_expert = Some [] \<longrightarrow>
      request_urls (fst (generate_prompt module_load world_T claude_expert)) =
        [str_of ''https://api.anthropic.com/v1/messages'']"
    by blast
  then have "request_urls (fst (generate_prompt module_load world_T claude_expert)) =
      [str_of ''https://api.anthropic.com/v1/messages'']"
    by (simp add: claude_expert_def python_expert_def)
  ultimately show ?thesis by simp
qed

theorem claude_empty_base_url_counterexample:
  "rstrip (str_of ''/'') [] = rstrip (str_of ''/'') (str_of ''/'') \<and>
   request_urls (fst (generate_prompt module_load world_T
      (claude_expert\<lparr>base_url := Some []\<rparr>))) =
     [str_of ''https://api.anthropic.com/v1/messages''] \<and>
   request_urls (fst (generate_prompt module_load world_T
      (claude_expert\<lparr>base_url := Some (str_of ''/'')\<rparr>))) = [str_of ''/v1/messages''] \<and>
   str_of ''https://api.anthropic.com/v1/messages'' \<noteq> str_of ''/v1/messages''"
  by (simp add: fst_generate_prompt fst_dispatch_claude generate_with_claude_def
      claude_expert_def rstrip_def str_of_def Let_def)

section \<open>The route\<close>

lemma fst_dispatch_st: "fst (dispatch_st g w req) = dispatch g w req"
  by (simp add: dispatch_st_def dispatch_def generate_with_openai_st_def
      generate_with_claude_st_def generate_with_gemini_st_def Let_def)

lemma snd_dispatch_st: "snd (dispatch_st g w req) = g"
  by (simp add: dispatch_st_def generate_with_openai_st_def generate_with_claude_st_def
      generate_with_gemini_st_def Let_def)

lemma fst_generate_prompt_st: "fst (generate_prompt_st g w req) = generate_prompt g w req"
  by (simp add: generate_prompt_st_def generate_prompt_def try_block_def fst_dispatch_st Let_def)

lemma snd_generate_prompt_st: "snd (generate_prompt_st g w req) = g"
  by (simp add: generate_prompt_st_def snd_dispatch_st Let_def)

lemma post_api_generate_accepted:
  "field_errors req = [] \<Longrightarrow>
   post_api_generate g w req =
     (fst (generate_prompt g w req), reply_of (snd (generate_prompt g w req)), g)"
  by (simp add: post_api_generate_def fst_generate_prompt_st snd_generate_prompt_st Let_def)


lemma field_errors_empty_iff:
  "field_errors req = [] \<longleftrightarrow>
     validate req \<and> encodable (role_input req) \<and> encodable (api_key req) \<and>
     encodable (model req)"
  by (auto simp: field_errors_def validate_def)



lemma one_call_when_valid:
  "validate req \<Longrightarrow> \<exists>c. fst (generate_prompt g w req) = [c]"
proof -
  assume "validate req"
  then have "provider req = str_of ''openai'' \<or> provider req = str_of ''claude'' \<or>
      provider req = str_of ''gemini''"
    by (auto simp: validate_def)
  then show ?thesis
    by (auto simp: fst_generate_prompt fst_dispatch_openai fst_dispatch_claude
        fst_dispatch_gemini generate_with_openai_def generate_with_claude_def
        generate_with_gemini_def Let_def)
qed






section \<open>The template\<close>

lemma carries_openai: "\<forall>c \<in> set (fst (generate_with_openai g w req)). carries (SYSTEM_PROMPT g) c"
  by (simp add: generate_with_openai_def Let_def)

lemma body_keys_distinct:
  "str_of ''model'' \<noteq> str_of ''system''" "str_of ''max_tokens'' \<noteq> str_of ''system''"
  by (simp_all add: str_of_def)

lemma carries_claude: "\<forall>c \<in> set (fst (generate_with_claude g w req)). carries (SYSTEM_PROMPT g) c"
  by (simp add: generate_with_claude_def Let_def body_keys_distinct
      body_keys_distinct [symmetric])

lemma carries_gemini: "\<forall>c \<in> set (fst (generate_with_gemini g w req)). carries (SYSTEM_PROMPT g) c"
  by (simp add: generate_with_gemini_def Let_def)

lemma carries_dispatch: "\<forall>c \<in> set (fst (dispatch g w req)). carries (SYSTEM_PROMPT g) c"
  using carries_openai [of g w req] carries_claude [of g w req] carries_gemini [of g w req]
  by (simp add: dispatch_def lift_exn_def)

lemma state_after_request: "snd (snd (post_api_generate g w req)) = g"
  by (simp add: post_api_generate_def snd_generate_prompt_st Let_def)

lemma accepted_request_carries:
  assumes "field_errors req = []"
  shows "\<exists>c. fst (post_api_generate g w req) = [c] \<and> carries (SYSTEM_PROMPT g) c"
proof -
  from assms have "validate req"
    by (simp add: field_errors_empty_iff)
  then obtain c where c: "fst (generate_prompt g w req) = [c]"
    using one_call_when_valid by blast
  with carries_dispatch [of g w req] have "carries (SYSTEM_PROMPT g) c"
    by (simp add: fst_generate_prompt)
  with c assms show ?thesis
    by (simp add: post_api_generate_accepted)
qed

lemma serve_unfold:
  "serve g rs =
     (map (\<lambda>(w, req). (fst (post_api_generate g w req), fst (snd (post_api_generate g w req)))) rs,
      g)"
  by (induction rs) (auto simp: state_after_request Let_def)

text \<open>
  Claim C9. No request changes the template: every request leaves the module state as
  it found it, so after any sequence of requests the state is still the one loaded at
  startup, and each request of the sequence is answered as it would be just after
  startup. Every accepted request, of any of the three providers, makes one outbound
  call, and that call carries the template text loaded at startup.
\<close>

theorem template_never_altered:
  "snd (snd (post_api_generate g w req)) = g \<and>
   snd (serve g rs) = g \<and>
   fst (serve g rs) =
     map (\<lambda>(w, req). (fst (post_api_generate g w req), fst (snd (post_api_generate g w req)))) rs \<and>
   (field_errors req = [] \<longrightarrow>
      (\<exists>c. fst (post_api_generate g w req) = [c] \<and> carries (SYSTEM_PROMPT g) c)) \<and>
   (\<forall>i < length rs. field_errors (snd (rs ! i)) = [] \<longrightarrow>
      (\<exists>c. fst (fst (serve module_load rs) ! i) = [c] \<and> carries SYSTEM_PROMPT_literal c))"
proof (intro conjI allI impI)
  show "snd (snd (post_api_generate g w req)) = g"
    by (rule state_after_request)
  show "snd (serve g rs) = g"
    by (simp add: serve_unfold)
  show "fst (serve g rs) =
      map (\<lambda>(w, req). (fst (post_api_generate g w req), fst (snd (post_api_generate g w req)))) rs"
    by (simp add: serve_unfold)
  show "\<exists>c. fst (post_api_generate g w req) = [c] \<and> carries (SYSTEM_PROMPT g) c"
    if "field_errors req = []"
    using that by (rule accepted_request_carries)
next
  fix i
  assume i: "i < length rs" and ok: "field_errors (snd (rs ! i)) = []"
  obtain w req where r: "rs ! i = (w, req)" by (cases "rs ! i")
  with ok have "\<exists>c. fst (post_api_generate module_load w req) = [c] \<and>
      carries (SYSTEM_PROMPT module_load) c"
    by (simp add: accepted_request_carries)
  moreover from i r have "fst (fst (serve module_load rs) ! i) =
      fst (post_api_generate module_load w req)"
    by (simp add: serve_unfold)
  ultimately show "\<exists>c. fst (fst (serve module_load rs) ! i) = [c] \<and> carries SYSTEM_PROMPT_literal c"
    by (simp add: module_load_def)
qed

lemma field_errors_samples:
  "field_errors python_expert = []" "field_errors claude_expert = []"
  "field_errors gemini_expert = []"
  by (simp_all add: field_errors_def python_expert_def claude_expert_def gemini_expert_def
      encodable_def str_of_def)

lemma sample_providers:
  "provider python_expert = str_of ''openai''" "provider gemini_expert = str_of ''gemini''"
  by (simp_all add: python_expert_def gemini_expert_def)

lemma list_all_three:
  "length xs = 3 \<Longrightarrow> P (xs ! 0) \<Longrightarrow> P (xs ! 1) \<Longrightarrow> P (xs ! 2) \<Longrightarrow> list_all P xs"
  by (auto simp: list_all_length less_Suc_eq numeral_3_eq_3 numeral_2_eq_2)

theorem template_never_altered_witness:
  "snd (serve module_load
      [(world_T, python_expert), (world_T, claude_expert), (world_T, gemini_expert)]) =
     module_load \<and>
   map (\<lambda>out. map adapter_of (fst out))
     (fst (serve module_load
        [(world_T, python_expert), (world_T, claude_expert), (world_T, gemini_expert)])) =
     [[OpenAI_adapter], [Anthropic_adapter], [Gemini_adapter]] \<and>
   list_all (\<lambda>out. list_all (carries SYSTEM_PROMPT_literal) (fst out))
     (fst (serve module_load
        [(world_T, python_expert), (world_T, claude_expert), (world_T, gemini_expert)]))"
proof -
  let ?rs = "[(world_T, python_expert), (world_T, claude_expert), (world_T, gemini_expert)]"
  define outs where "outs = fst (serve module_load ?rs)"
  note t = template_never_altered [of module_load world_T python_expert ?rs]
  from t have st: "snd (serve module_load ?rs) = module_load"
    by blast
  from t have all: "\<forall>i < length ?rs. field_errors (snd (?rs ! i)) = [] \<longrightarrow>
      (\<exists>c. fst (outs ! i) = [c] \<and> carries SYSTEM_PROMPT_literal c)"
    unfolding outs_def by blast
  have len: "length outs = 3"
    unfolding outs_def by (simp add: serve_unfold)
  have "\<exists>c. fst (outs ! 0) = [c] \<and> carries SYSTEM_PROMPT_literal c"
    using all [rule_format, of 0] by (simp add: field_errors_samples)
  then have p0: "list_all (carries SYSTEM_PROMPT_literal) (fst (outs ! 0))"
    by auto
  have "\<exists>c. fst (outs ! 1) = [c] \<and> carries SYSTEM_PROMPT_literal c"
    using all [rule_format, of 1] by (simp add: field_errors_samples)
  then have p1: "list_all (carries SYSTEM_PROMPT_literal) (fst (outs ! 1))"
    by auto
  have "\<exists>c. fst (outs ! 2) = [c] \<and> carries SYSTEM_PROMPT_literal c"
    using all [rule_format, of 2] by (simp add: field_errors_samples)
  then have p2: "list_all (carries SYSTEM_PROMPT_literal) (fst (outs ! 2))"
    by auto
  from len p0 p1 p2
  have "list_all (\<lambda>out. list_all (carries SYSTEM_PROMPT_literal) (fst out)) outs"
    by (rule list_all_three)
  then have c: "list_all (\<lambda>out. list_all (carries SYSTEM_PROMPT_literal) (fst out))
      (fst (serve module_load ?rs))"
    unfolding outs_def .
  have "map (\<lambda>out. map adapter_of (fst out)) (fst (serve module_load ?rs)) =
      [[OpenAI_adapter], [Anthropic_adapter], [Gemini_adapter]]"
    by (simp add: serve_unfold post_api_generate_accepted field_errors_samples
        fst_generate_prompt fst_dispatch_openai fst_dispatch_claude fst_dispatch_gemini
        sample_providers provider_claude_expert adapters_of_openai adapters_of_claude
        adapters_of_gemini)
  with st c show ?thesis by simp
qed

end
